theory Spec2Isabelle
  imports Complex_Main
begin

section \<open>Values read from the JSONL files\<close>

text \<open>
  \<^verbatim>\<open>load_jsonl\<close> turns every line of the input file into a Python value with
  \<^verbatim>\<open>json.loads\<close>. The datatype below is that value: \<^verbatim>\<open>None\<close>, a bool, a
  number, a string, a list or a dict. A dict is kept as the list of its items and is
  read with \<open>map_of\<close>. A JSON number without fraction or exponent is loaded as a Python
  \<^verbatim>\<open>int\<close>, which is unbounded, every other number as a \<^verbatim>\<open>float\<close>. A (finite)
  \<^verbatim>\<open>float\<close> is embedded into the reals; arithmetic on floats is exact in this
  development, so rounding, overflow of float arithmetic and the non-finite floats are
  outside of it.
\<close>

datatype json =
    JNull
  | JBool bool
  | JInt int
  | JFloat real
  | JStr string
  | JArr "json list"
  | JObj "(string \<times> json) list"

datatype pyerror =
  AttributeError | TypeError | ValueError | IndexError | ZeroDivisionError | OverflowError

definition LABEL_KEYS :: "string list" where
  "LABEL_KEYS =
    [''humbleBragging'', ''excessiveEmojis'', ''engagementBait'', ''fakeStories'',
     ''companyCulture'', ''personalAnecdotes'', ''hiringStories'', ''basicDecencyPraising'',
     ''minorAchievements'', ''buzzwordOveruse'', ''linkedinCliches'', ''virtueSignaling'',
     ''professionalOversharing'', ''mundaneLifeLessons'', ''overall_cringe'']"

text \<open>Sequencing of computations that may raise: the first exception wins.\<close>

definition bind_err :: "'e + 'a \<Rightarrow> ('a \<Rightarrow> 'e + 'b) \<Rightarrow> 'e + 'b" where
  "bind_err m f = (case m of Inl e \<Rightarrow> Inl e | Inr v \<Rightarrow> f v)"

text \<open>A list comprehension whose element expression may raise.\<close>

fun map_err :: "('a \<Rightarrow> 'e + 'b) \<Rightarrow> 'a list \<Rightarrow> 'e + 'b list" where
  "map_err f [] = Inr []"
| "map_err f (x # xs) =
     (case f x of
        Inl e \<Rightarrow> Inl e
      | Inr y \<Rightarrow> (case map_err f xs of Inl e \<Rightarrow> Inl e | Inr ys \<Rightarrow> Inr (y # ys)))"

text \<open>
  \<^verbatim>\<open>d.get(k, default)\<close>: only a dict has the method; on anything else the attribute
  lookup raises.
\<close>

definition dict_get :: "json \<Rightarrow> string \<Rightarrow> json \<Rightarrow> pyerror + json" where
  "dict_get d k dflt =
     (case d of
        JObj kvs \<Rightarrow> Inr (case map_of kvs k of None \<Rightarrow> dflt | Some v \<Rightarrow> v)
      | _ \<Rightarrow> Inl AttributeError)"

text \<open>Python's truth value of a loaded JSON value.\<close>

fun truthy :: "json \<Rightarrow> bool" where
  "truthy JNull = False"
| "truthy (JBool b) = b"
| "truthy (JInt n) = (n \<noteq> 0)"
| "truthy (JFloat x) = (x \<noteq> 0)"
| "truthy (JStr s) = (s \<noteq> [])"
| "truthy (JArr xs) = (xs \<noteq> [])"
| "truthy (JObj kvs) = (kvs \<noteq> [])"

text \<open>
  The integers that \<^verbatim>\<open>float\<close> converts are those of absolute value below
  \<open>2\<^sup>1\<^sup>0\<^sup>2\<^sup>4 - 2\<^sup>9\<^sup>7\<^sup>0\<close>: they round to a double, the largest double being
  \<open>2\<^sup>1\<^sup>0\<^sup>2\<^sup>4 - 2\<^sup>9\<^sup>7\<^sup>1\<close>. From there on the conversion raises.
\<close>

definition float_limit :: int where
  "float_limit = 2 ^ 1024 - 2 ^ 970"

text \<open>
  \<^verbatim>\<open>float(v)\<close>. A float converts to itself, an integer within the range of a double to
  its value (rounding is not modelled) and a bool to 0 or 1; an integer beyond the range
  raises; a string goes through Python's parser of float literals, which is a parameter
  here (\<open>None\<close> where it raises); \<^verbatim>\<open>None\<close>, a list and a dict are a type error.
\<close>

fun py_float :: "(string \<Rightarrow> real option) \<Rightarrow> json \<Rightarrow> pyerror + real" where
  "py_float pf (JFloat x) = Inr x"
| "py_float pf (JInt n) = (if \<bar>n\<bar> < float_limit then Inr (of_int n) else Inl OverflowError)"
| "py_float pf (JBool b) = Inr (if b then 1 else 0)"
| "py_float pf (JStr s) = (case pf s of None \<Rightarrow> Inl ValueError | Some x \<Rightarrow> Inr x)"
| "py_float pf JNull = Inl TypeError"
| "py_float pf (JArr xs) = Inl TypeError"
| "py_float pf (JObj kvs) = Inl TypeError"

section \<open>The example adapter: \<^verbatim>\<open>KDDataset.__getitem__\<close>\<close>

text \<open>
  The item handed to the trainer. \<open>inputs\<close> is what the tokenizer returned for the text
  (the tokenizer is an external collaborator and a parameter of the adapter);
  \<open>teacher_probs\<close> and \<open>labels\<close> are the two tensors of the item.
\<close>

record 'enc item =
  inputs :: 'enc
  teacher_probs :: "real list"
  labels :: "real list"

text \<open>Line 91: \<^verbatim>\<open>sample.get("post", {}).get("text", "")\<close>.\<close>

definition sample_text :: "json \<Rightarrow> pyerror + json" where
  "sample_text sample =
     bind_err (dict_get sample ''post'' (JObj [])) (\<lambda>post. dict_get post ''text'' (JStr []))"

text \<open>Lines 92-93: the teacher block and the list of its probabilities.\<close>

definition sample_teacher_probs :: "(string \<Rightarrow> real option) \<Rightarrow> json \<Rightarrow> pyerror + real list" where
  "sample_teacher_probs pf sample =
     bind_err (dict_get sample ''teacher'' (JObj [])) (\<lambda>teacher.
     bind_err (dict_get teacher ''labels'' (JObj [])) (\<lambda>labels.
       map_err (\<lambda>label. bind_err (dict_get labels label (JFloat 0)) (py_float pf)) LABEL_KEYS))"

text \<open>Lines 105-111: the supervision target.\<close>

definition sample_labels :: "json \<Rightarrow> real list \<Rightarrow> pyerror + real list" where
  "sample_labels sample tprobs =
     bind_err (dict_get sample ''human_labels'' JNull) (\<lambda>hard_labels.
       if truthy hard_labels
       then map_err (\<lambda>label. bind_err (dict_get hard_labels label JNull)
                                (\<lambda>v. Inr (if truthy v then 1 else 0))) LABEL_KEYS
       else Inr tprobs)"

text \<open>The body of \<^verbatim>\<open>__getitem__\<close> for one sample, in the order of the source.\<close>

definition adapt_sample ::
  "(json \<Rightarrow> pyerror + 'enc) \<Rightarrow> (string \<Rightarrow> real option) \<Rightarrow> json \<Rightarrow> pyerror + 'enc item" where
  "adapt_sample tokenizer pf sample =
     bind_err (sample_text sample) (\<lambda>text.
     bind_err (sample_teacher_probs pf sample) (\<lambda>tprobs.
     bind_err (tokenizer text) (\<lambda>enc.
     bind_err (sample_labels sample tprobs) (\<lambda>lbls.
       Inr \<lparr>inputs = enc, teacher_probs = tprobs, labels = lbls\<rparr>))))"

text \<open>\<^verbatim>\<open>self.data[idx]\<close>: a negative index counts from the end.\<close>

definition list_index :: "'a list \<Rightarrow> int \<Rightarrow> pyerror + 'a" where
  "list_index xs i =
     (if 0 \<le> i \<and> i < int (length xs) then Inr (xs ! nat i)
      else if i < 0 \<and> - int (length xs) \<le> i then Inr (xs ! nat (int (length xs) + i))
      else Inl IndexError)"

definition getitem ::
  "(json \<Rightarrow> pyerror + 'enc) \<Rightarrow> (string \<Rightarrow> real option) \<Rightarrow> json list \<Rightarrow> int \<Rightarrow> pyerror + 'enc item" where
  "getitem tokenizer pf data idx = bind_err (list_index data idx) (adapt_sample tokenizer pf)"

section \<open>The input format\<close>

text \<open>
  The records the trainer is meant for: a dict in which \<^verbatim>\<open>post\<close>, \<^verbatim>\<open>teacher\<close>,
  \<^verbatim>\<open>teacher.labels\<close> and \<^verbatim>\<open>human_labels\<close> are dicts when they are there, the text
  is a string when it is there, and the teacher's score of a label is a number when it is
  there. Every one of these keys may be missing. The predicate \<open>in_float_range\<close> below
  adds that every score is within the range of a double, which is what the adapter's
  \<^verbatim>\<open>float\<close> needs of an integer score.
\<close>

definition opt_field :: "(string \<times> json) list \<Rightarrow> string \<Rightarrow> (json \<Rightarrow> bool) \<Rightarrow> bool" where
  "opt_field kvs k ok = (case map_of kvs k of None \<Rightarrow> True | Some v \<Rightarrow> ok v)"

fun is_num :: "json \<Rightarrow> bool" where
  "is_num (JInt n) = True"
| "is_num (JFloat x) = True"
| "is_num _ = False"

fun is_str :: "json \<Rightarrow> bool" where
  "is_str (JStr s) = True"
| "is_str _ = False"

fun is_obj :: "json \<Rightarrow> bool" where
  "is_obj (JObj kvs) = True"
| "is_obj _ = False"

fun post_ok :: "json \<Rightarrow> bool" where
  "post_ok (JObj kvs) = opt_field kvs ''text'' is_str"
| "post_ok _ = False"

fun scores_ok :: "json \<Rightarrow> bool" where
  "scores_ok (JObj kvs) = list_all (\<lambda>label. opt_field kvs label is_num) LABEL_KEYS"
| "scores_ok _ = False"

fun teacher_ok :: "json \<Rightarrow> bool" where
  "teacher_ok (JObj kvs) = opt_field kvs ''labels'' scores_ok"
| "teacher_ok _ = False"

fun record_ok :: "json \<Rightarrow> bool" where
  "record_ok (JObj kvs) =
     (opt_field kvs ''post'' post_ok \<and> opt_field kvs ''teacher'' teacher_ok
      \<and> opt_field kvs ''human_labels'' is_obj)"
| "record_ok _ = False"

text \<open>
  What a record says, read off the loaded value without going through the adapter:
  the teacher's score of a label (0 when anything on the way to it is missing; a bool
  is the number 1 or 0, as it is for Python's \<^verbatim>\<open>float\<close> and \<^verbatim>\<open>>=\<close>), whether
  human labels are present and non-empty, and whether they mark a label.
\<close>

fun num_value :: "json \<Rightarrow> real" where
  "num_value (JFloat x) = x"
| "num_value (JInt n) = of_int n"
| "num_value (JBool b) = (if b then 1 else 0)"
| "num_value _ = 0"

fun field :: "json \<Rightarrow> string \<Rightarrow> json option" where
  "field (JObj kvs) k = map_of kvs k"
| "field _ k = None"

definition teacher_score :: "json \<Rightarrow> string \<Rightarrow> real" where
  "teacher_score sample label =
     (case field sample ''teacher'' of
        None \<Rightarrow> 0
      | Some t \<Rightarrow> (case field t ''labels'' of
                     None \<Rightarrow> 0
                   | Some ls \<Rightarrow> (case field ls label of None \<Rightarrow> 0 | Some v \<Rightarrow> num_value v)))"

definition human_present :: "json \<Rightarrow> bool" where
  "human_present sample = (case field sample ''human_labels'' of None \<Rightarrow> False | Some h \<Rightarrow> truthy h)"

definition human_marks :: "json \<Rightarrow> string \<Rightarrow> bool" where
  "human_marks sample label =
     (case field sample ''human_labels'' of
        None \<Rightarrow> False
      | Some h \<Rightarrow> (case field h label of None \<Rightarrow> False | Some v \<Rightarrow> truthy v))"

definition in_float_range :: "json \<Rightarrow> bool" where
  "in_float_range sample =
     list_all (\<lambda>label. \<bar>teacher_score sample label\<bar> < real_of_int float_limit) LABEL_KEYS"

definition post_text :: "json \<Rightarrow> string" where
  "post_text sample =
     (case field sample ''post'' of
        None \<Rightarrow> []
      | Some p \<Rightarrow> (case field p ''text'' of Some (JStr s) \<Rightarrow> s | _ \<Rightarrow> []))"

section \<open>The evaluator: \<^verbatim>\<open>evaluate_model\<close>\<close>

text \<open>
  \<^verbatim>\<open>v >= threshold\<close> for a loaded value and a float: numbers and bools compare (an
  integer of any size, by its exact value), every other value raises.
\<close>

fun py_ge :: "json \<Rightarrow> real \<Rightarrow> pyerror + bool" where
  "py_ge (JFloat x) thr = Inr (thr \<le> x)"
| "py_ge (JInt n) thr = Inr (thr \<le> of_int n)"
| "py_ge (JBool b) thr = Inr (thr \<le> (if b then 1 else 0))"
| "py_ge JNull thr = Inl TypeError"
| "py_ge (JStr s) thr = Inl TypeError"
| "py_ge (JArr xs) thr = Inl TypeError"
| "py_ge (JObj kvs) thr = Inl TypeError"

text \<open>
  Line 157, one entry of the ground truth. The conditional expression evaluates the teacher
  side only when the human label is not truthy.
\<close>

definition truth_entry :: "real \<Rightarrow> json \<Rightarrow> string \<Rightarrow> pyerror + int" where
  "truth_entry threshold sample label =
     bind_err (dict_get sample ''human_labels'' (JObj [])) (\<lambda>human.
     bind_err (dict_get human label JNull) (\<lambda>v.
       if truthy v then Inr 1
       else
         bind_err (dict_get sample ''teacher'' (JObj [])) (\<lambda>teacher.
         bind_err (dict_get teacher ''labels'' (JObj [])) (\<lambda>scores.
         bind_err (dict_get scores label (JInt 0)) (\<lambda>score.
         bind_err (py_ge score threshold) (\<lambda>b. Inr (if b then 1 else 0)))))))"

definition truth_row :: "real \<Rightarrow> json \<Rightarrow> pyerror + int list" where
  "truth_row threshold sample = map_err (truth_entry threshold sample) LABEL_KEYS"

definition hard_labels_of :: "real \<Rightarrow> json list \<Rightarrow> pyerror + int list list" where
  "hard_labels_of threshold data = map_err (truth_row threshold) data"

definition sigmoid :: "real \<Rightarrow> real" where
  "sigmoid x = 1 / (1 + exp (- x))"

definition hard_preds_of :: "real \<Rightarrow> real list list \<Rightarrow> int list list" where
  "hard_preds_of threshold logits =
     map (map (\<lambda>x. if threshold \<le> sigmoid x then 1 else 0)) logits"

subsection \<open>The metrics of the report\<close>

text \<open>
  Modelled from the spec: the three metric functions called on lines 162-166
  (\<^verbatim>\<open>classification_report\<close>, \<^verbatim>\<open>f1_score\<close> and
  \<^verbatim>\<open>precision_recall_fscore_support\<close>, all with \<^verbatim>\<open>zero_division=0\<close>) are
  imported, their code is not part of the repository. The spec asks for per-label
  precision, recall and F1, for macro averages that weigh every label equally, and for a
  zero in place of an undefined ratio. Precision is the share of the predicted positives
  that are true, recall the share of the true positives that are predicted, F1 their
  harmonic mean.
\<close>

definition column :: "nat \<Rightarrow> 'a list list \<Rightarrow> 'a list" where
  "column j m = map (\<lambda>row. row ! j) m"

definition count_pos :: "int list \<Rightarrow> nat" where
  "count_pos ys = length (filter (\<lambda>y. y = 1) ys)"

definition count_tp :: "int list \<Rightarrow> int list \<Rightarrow> nat" where
  "count_tp ts ps = length (filter (\<lambda>(t, p). t = 1 \<and> p = 1) (zip ts ps))"

definition zero_div :: "real \<Rightarrow> real \<Rightarrow> real" where
  "zero_div a b = (if b = 0 then 0 else a / b)"

definition label_precision :: "int list \<Rightarrow> int list \<Rightarrow> real" where
  "label_precision ts ps = zero_div (real (count_tp ts ps)) (real (count_pos ps))"

definition label_recall :: "int list \<Rightarrow> int list \<Rightarrow> real" where
  "label_recall ts ps = zero_div (real (count_tp ts ps)) (real (count_pos ts))"

definition label_f1 :: "int list \<Rightarrow> int list \<Rightarrow> real" where
  "label_f1 ts ps =
     zero_div (2 * label_precision ts ps * label_recall ts ps)
              (label_precision ts ps + label_recall ts ps)"

record label_report =
  precision :: real
  recall :: real
  f1_score :: real
  support :: nat

definition report_of :: "int list \<Rightarrow> int list \<Rightarrow> label_report" where
  "report_of ts ps =
     \<lparr>precision = label_precision ts ps, recall = label_recall ts ps,
      f1_score = label_f1 ts ps, support = count_pos ts\<rparr>"

definition per_label_report :: "int list list \<Rightarrow> int list list \<Rightarrow> (string \<times> label_report) list" where
  "per_label_report y_true y_pred =
     map (\<lambda>j. (LABEL_KEYS ! j, report_of (column j y_true) (column j y_pred)))
         [0 ..< length LABEL_KEYS]"

definition macro ::
  "(label_report \<Rightarrow> real) \<Rightarrow> int list list \<Rightarrow> int list list \<Rightarrow> real" where
  "macro metric y_true y_pred =
     sum_list (map (\<lambda>(name, r). metric r) (per_label_report y_true y_pred))
       / real (length LABEL_KEYS)"

record metrics =
  macro_f1 :: real
  macro_precision :: real
  macro_recall :: real
  per_label :: "(string \<times> label_report) list"

text \<open>
  \<^verbatim>\<open>evaluate_model\<close>. The logits are what \<^verbatim>\<open>trainer.predict\<close> returned for the
  dataset, one row per sample; the prediction itself is outside of the model. Of the
  report of line 162 the entries of the labels are kept, in the order of the schema; its
  averages are not.
\<close>

definition evaluate_model :: "real list list \<Rightarrow> json list \<Rightarrow> real \<Rightarrow> pyerror + metrics" where
  "evaluate_model logits data threshold =
     (let hard_preds = hard_preds_of threshold logits in
      bind_err (hard_labels_of threshold data) (\<lambda>hard_labels.
        Inr \<lparr>macro_f1 = macro f1_score hard_labels hard_preds,
             macro_precision = macro precision hard_labels hard_preds,
             macro_recall = macro recall hard_labels hard_preds,
             per_label = per_label_report hard_labels hard_preds\<rparr>))"

section \<open>The distillation loss: \<^verbatim>\<open>kd_loss\<close>\<close>

text \<open>
  The tensors of a batch are lists of rows, one row per example. The arithmetic of the
  tensor library is taken exact. A value of type \<open>real option\<close> is a float of the
  computation: \<open>None\<close> stands for a result that is not a finite number (NaN, or an
  infinity that turns into NaN further down), as far as exact arithmetic shows it: a
  negative base raised to a fractional power, zero raised to a negative power, the
  logarithm of a negative number, the mean of no elements.
\<close>

text \<open>\<^verbatim>\<open>x ** a\<close> on one element.\<close>

definition torch_pow :: "real \<Rightarrow> real \<Rightarrow> real option" where
  "torch_pow x a =
     (if 0 < x then Some (x powr a)
      else if x = 0 then (if 0 < a then Some 0 else if a = 0 then Some 1 else None)
      else if a = of_int \<lfloor>a\<rfloor> then Some (x powi \<lfloor>a\<rfloor>)
      else None)"

text \<open>
  Lines 119-120 on one row: the power, then the division by the row sum clamped from
  below at \<^verbatim>\<open>1e-9\<close>.
\<close>

definition teacher_soft_row :: "real \<Rightarrow> real list \<Rightarrow> real list option" where
  "teacher_soft_row a ps =
     (case those (map (\<lambda>p. torch_pow p a) ps) of
        None \<Rightarrow> None
      | Some qs \<Rightarrow> Some (map (\<lambda>q. q / max (sum_list qs) (1 / 10 ^ 9)) qs))"

text \<open>\<^verbatim>\<open>F.log_softmax(z, dim=-1)\<close> on one row.\<close>

definition log_softmax_row :: "real list \<Rightarrow> real list" where
  "log_softmax_row zs = map (\<lambda>z. z - ln (sum_list (map exp zs))) zs"

text \<open>
  \<^verbatim>\<open>F.kl_div(input, target, reduction="batchmean")\<close>: the pointwise term is
  \<^verbatim>\<open>xlogy(target, target) - target * input\<close>, the terms are summed over the whole
  tensor and the sum is divided by the number of rows.
\<close>

definition kl_pointwise :: "real \<Rightarrow> real \<Rightarrow> real option" where
  "kl_pointwise inp tgt =
     (if tgt = 0 then Some 0
      else if tgt < 0 then None
      else Some (tgt * ln tgt - tgt * inp))"

definition kl_div_batchmean :: "real list list \<Rightarrow> real list list \<Rightarrow> real option" where
  "kl_div_batchmean input target =
     (if input = [] then None
      else (case those (concat (map2 (map2 kl_pointwise) input target)) of
              None \<Rightarrow> None
            | Some vs \<Rightarrow> Some (sum_list vs / real (length input))))"

text \<open>
  \<^verbatim>\<open>F.binary_cross_entropy_with_logits(input, target, reduction="mean")\<close>: the
  binary cross-entropy of the sigmoid of each logit, averaged over all elements.
\<close>

definition bce_pointwise :: "real \<Rightarrow> real \<Rightarrow> real" where
  "bce_pointwise x y = - (y * ln (sigmoid x) + (1 - y) * ln (1 - sigmoid x))"

definition bce_with_logits_mean :: "real list list \<Rightarrow> real list list \<Rightarrow> real option" where
  "bce_with_logits_mean input target =
     (let vs = concat (map2 (map2 bce_pointwise) input target)
      in if vs = [] then None else Some (sum_list vs / real (length vs)))"

text \<open>Lines 119-123: the KL term, for a temperature that is not zero.\<close>

definition kl_term :: "real list list \<Rightarrow> real list list \<Rightarrow> real \<Rightarrow> real option" where
  "kl_term student_logits teacher_probs_t t =
     (case those (map (teacher_soft_row (1 / t)) teacher_probs_t) of
        None \<Rightarrow> None
      | Some teacher_soft \<Rightarrow>
          (let student_log_soft = map (\<lambda>row. log_softmax_row (map (\<lambda>x. x / t) row)) student_logits
           in map_option (\<lambda>kl. kl * (t * t)) (kl_div_batchmean student_log_soft teacher_soft)))"

text \<open>
  \<^verbatim>\<open>kd_loss\<close>. The temperature is a Python float, so \<^verbatim>\<open>1.0 / t\<close> raises when it is
  zero. The three tensors have the same shape in every call the trainer makes; the
  theorems below say so where they need it. (\<open>teacher_probs_t\<close> and \<open>labels_t\<close> are the
  parameters \<^verbatim>\<open>teacher_probs\<close> and \<^verbatim>\<open>labels\<close> of the source; the plain names are
  the fields of an item.)
\<close>

definition kd_loss ::
  "real list list \<Rightarrow> real list list \<Rightarrow> real list list \<Rightarrow> real \<Rightarrow> real \<Rightarrow> real
     \<Rightarrow> pyerror + real option" where
  "kd_loss student_logits teacher_probs_t labels_t temperature alpha_kl alpha_ce =
     (let t = temperature in
      if t = 0 then Inl ZeroDivisionError
      else Inr (case kl_term student_logits teacher_probs_t t of
                  None \<Rightarrow> None
                | Some kl \<Rightarrow>
                    (case bce_with_logits_mean student_logits labels_t of
                       None \<Rightarrow> None
                     | Some ce \<Rightarrow> Some (alpha_kl * kl + alpha_ce * ce))))"

text \<open>The shape of a batch tensor: \<open>b\<close> rows of \<open>n\<close> entries.\<close>

definition has_shape :: "nat \<Rightarrow> nat \<Rightarrow> 'a list list \<Rightarrow> bool" where
  "has_shape b n m = (length m = b \<and> list_all (\<lambda>row. length row = n) m)"

section \<open>The loss in the words of the specification\<close>

text \<open>
  The formula the specification gives for the loss, written with indexed sums over a batch
  of \<open>b\<close> examples and \<open>n\<close> labels. The sharpened teacher distribution: each probability
  to the power \<open>1 / T\<close>, divided by the sum of the powers of its example, the sum floored at
  \<open>10\<^sup>-\<^sup>9\<close>.
\<close>

definition teacher_soft_spec :: "real \<Rightarrow> real list \<Rightarrow> nat \<Rightarrow> real" where
  "teacher_soft_spec T p j =
     (p ! j) powr (1 / T) / max (\<Sum>k<length p. (p ! k) powr (1 / T)) (1 / 10 ^ 9)"

text \<open>The logarithm of the softmax of a row.\<close>

definition log_softmax_spec :: "real list \<Rightarrow> nat \<Rightarrow> real" where
  "log_softmax_spec z j = ln (exp (z ! j) / (\<Sum>k<length z. exp (z ! k)))"

text \<open>
  The KL divergence of the target distribution from the distribution with the given
  logarithms, summed over the examples and divided by their number. A target of 0
  contributes 0.
\<close>

definition kl_batchmean_spec ::
  "nat \<Rightarrow> nat \<Rightarrow> (nat \<Rightarrow> nat \<Rightarrow> real) \<Rightarrow> (nat \<Rightarrow> nat \<Rightarrow> real) \<Rightarrow> real" where
  "kl_batchmean_spec b n logq tgt =
     (\<Sum>i<b. \<Sum>j<n. tgt i j * (ln (tgt i j) - logq i j)) / real b"

text \<open>The binary cross-entropy of the sigmoid of the logits, averaged over all entries.\<close>

definition bce_mean_spec :: "nat \<Rightarrow> nat \<Rightarrow> real list list \<Rightarrow> real list list \<Rightarrow> real" where
  "bce_mean_spec b n x y =
     (\<Sum>i<b. \<Sum>j<n. - (y ! i ! j * ln (sigmoid (x ! i ! j))
                          + (1 - y ! i ! j) * ln (1 - sigmoid (x ! i ! j)))) / real (b * n)"

definition kd_loss_spec ::
  "nat \<Rightarrow> nat \<Rightarrow> real list list \<Rightarrow> real list list \<Rightarrow> real list list \<Rightarrow> real \<Rightarrow> real \<Rightarrow> real \<Rightarrow> real" where
  "kd_loss_spec b n x p y T akl ace =
     akl * (T\<^sup>2 * kl_batchmean_spec b n
                    (\<lambda>i. log_softmax_spec (map (\<lambda>v. v / T) (x ! i)))
                    (\<lambda>i. teacher_soft_spec T (p ! i)))
     + ace * bce_mean_spec b n x y"

text \<open>The Shannon entropy of a vector of probabilities; an entry 0 contributes 0.\<close>

definition entropy :: "real list \<Rightarrow> real" where
  "entropy qs = - sum_list (map (\<lambda>q. q * ln q) qs)"

section \<open>Conditions on a batch and auxiliary forms\<close>

text \<open>Teacher entries that are not negative; targets in the unit interval.\<close>

definition nonneg_rows :: "real list list \<Rightarrow> bool" where
  "nonneg_rows m = list_all (list_all (\<lambda>v. 0 \<le> v)) m"

definition unit_rows :: "real list list \<Rightarrow> bool" where
  "unit_rows m = list_all (list_all (\<lambda>v. 0 \<le> v \<and> v \<le> 1)) m"

text \<open>
  The floor of line 120 leaves a row as the normalisation would: the row is all zero, or
  the sum of its powers reaches \<open>10\<^sup>-\<^sup>9\<close>.
\<close>

definition floor_inactive :: "real \<Rightarrow> real list \<Rightarrow> bool" where
  "floor_inactive T row =
     (list_all (\<lambda>v. v = 0) row \<or> 1 / 10 ^ 9 \<le> sum_list (map (\<lambda>v. v powr (1 / T)) row))"

text \<open>What \<open>teacher_soft_row\<close> and \<open>kl_pointwise\<close> compute where they return a number.\<close>

definition soft_row :: "real \<Rightarrow> real list \<Rightarrow> real list" where
  "soft_row a ps = map (\<lambda>p. p powr a / max (sum_list (map (\<lambda>p. p powr a) ps)) (1 / 10 ^ 9)) ps"

definition kl_point :: "real \<Rightarrow> real \<Rightarrow> real" where
  "kl_point inp tgt = (if tgt = 0 then 0 else tgt * ln tgt - tgt * inp)"

text \<open>
  Reading the outcome of \<open>kd_loss\<close>: it returned (no exception) a number (no NaN), and
  that number.
\<close>

definition is_number :: "pyerror + real option \<Rightarrow> bool" where
  "is_number r = (case r of Inr (Some v) \<Rightarrow> True | _ \<Rightarrow> False)"

definition loss_value :: "pyerror + real option \<Rightarrow> real" where
  "loss_value r = (case r of Inr (Some v) \<Rightarrow> v | _ \<Rightarrow> 0)"

text \<open>
  For the entropy of the sharpened row: the sum of the powers of a row, the normalised
  powers, and the mean of the logarithms of the entries under the normalised powers.
\<close>

definition pow_sum :: "real \<Rightarrow> real list \<Rightarrow> real" where
  "pow_sum \<beta> p = (\<Sum>k<length p. (p ! k) powr \<beta>)"

definition gibbs_q :: "real \<Rightarrow> real list \<Rightarrow> nat \<Rightarrow> real" where
  "gibbs_q \<beta> p j = (p ! j) powr \<beta> / pow_sum \<beta> p"

definition mean_log :: "real \<Rightarrow> real list \<Rightarrow> real" where
  "mean_log \<beta> p = (\<Sum>j<length p. gibbs_q \<beta> p j * ln (p ! j))"

section \<open>Sample inputs\<close>

text \<open>
  The record of the end-to-end scenarios: a post with two teacher scores and one human
  label.
\<close>

definition scenario :: json where
  "scenario = JObj
     [(''post'', JObj [(''text'', JStr ''Excited to announce my promotion!'')]),
      (''teacher'', JObj [(''labels'', JObj [(''humbleBragging'', JFloat (9 / 10)),
                                              (''overall_cringe'', JFloat (8 / 10))])]),
      (''human_labels'', JObj [(''humbleBragging'', JBool True)])]"

text \<open>
  Rows of the width of the label schema: a teacher vector with one tiny entry, student
  logits that favour the first label, all-zero logits, and the one-hot vector of the first
  label.
\<close>

definition tiny_probs :: "real list" where
  "tiny_probs = [1 / 10 ^ 20, 0, 0, 0, 0, 0, 0, 0, 0, 0, 0, 0, 0, 0, 0]"

definition peaked_logits :: "real list" where
  "peaked_logits = [20, -20, -20, -20, -20, -20, -20, -20, -20, -20, -20, -20, -20, -20, -20]"

definition zero_logits :: "real list" where
  "zero_logits = [0, 0, 0, 0, 0, 0, 0, 0, 0, 0, 0, 0, 0, 0, 0]"

definition one_hot :: "real list" where
  "one_hot = [1, 0, 0, 0, 0, 0, 0, 0, 0, 0, 0, 0, 0, 0, 0]"

text \<open>
  The teacher vector of the scenario, and logits for the scenario and the empty record
  whose thresholded sigmoid agrees with the ground truth of both at threshold 0.5.
\<close>

definition scenario_probs :: "real list" where
  "scenario_probs = [9 / 10, 0, 0, 0, 0, 0, 0, 0, 0, 0, 0, 0, 0, 0, 8 / 10]"

definition agreeing_logits :: "real list list" where
  "agreeing_logits =
     [[20, -20, -20, -20, -20, -20, -20, -20, -20, -20, -20, -20, -20, -20, 20],
      [-20, -20, -20, -20, -20, -20, -20, -20, -20, -20, -20, -20, -20, -20, -20]]"

section \<open>Properties of the example adapter and of the ground truth\<close>


lemma map_err_Inr:
  "(\<And>x. x \<in> set xs \<Longrightarrow> f x = Inr (g x)) \<Longrightarrow> map_err f xs = Inr (map g xs)"
  by (induction xs) simp_all

lemma length_LABEL_KEYS: "length LABEL_KEYS = 15"
  by (simp add: LABEL_KEYS_def)

lemma dict_get_obj:
  "dict_get (JObj kvs) k dflt = Inr (case map_of kvs k of None \<Rightarrow> dflt | Some v \<Rightarrow> v)"
  by (simp add: dict_get_def)

lemma bind_err_Inr [simp]: "bind_err (Inr v) f = f v"
  by (simp add: bind_err_def)

lemma bind_err_Inl [simp]: "bind_err (Inl e) f = Inl e"
  by (simp add: bind_err_def)

lemma sample_text_ok:
  assumes "record_ok sample"
  shows "sample_text sample = Inr (JStr (post_text sample))"
proof -
  obtain kvs where s: "sample = JObj kvs" using assms by (cases sample) simp_all
  show ?thesis
  proof (cases "map_of kvs ''post''")
    case None
    then show ?thesis by (simp add: s sample_text_def dict_get_obj post_text_def)
  next
    case (Some p)
    with assms s have "post_ok p" by (simp add: opt_field_def)
    then obtain pk where p: "p = JObj pk" by (cases p) simp_all
    with \<open>post_ok p\<close> have t: "opt_field pk ''text'' is_str" by simp
    show ?thesis
    proof (cases "map_of pk ''text''")
      case None
      then show ?thesis using Some by (simp add: s p sample_text_def dict_get_obj post_text_def)
    next
      case (Some v)
      with t obtain str where "v = JStr str" by (cases v) (simp_all add: opt_field_def)
      then show ?thesis using Some \<open>map_of kvs ''post'' = Some p\<close>
        by (simp add: s p sample_text_def dict_get_obj post_text_def)
    qed
  qed
qed

lemma float_limit_pos: "0 < float_limit"
  by (simp add: float_limit_def)

lemma float_limit_gt: "2 < float_limit"
  by (simp add: float_limit_def)

lemma score_lookup:
  assumes "opt_field ls label is_num"
    and "\<bar>case map_of ls label of None \<Rightarrow> 0 | Some v \<Rightarrow> num_value v\<bar> < real_of_int float_limit"
  shows "bind_err (dict_get (JObj ls) label (JFloat 0)) (py_float pf)
           = Inr (case map_of ls label of None \<Rightarrow> 0 | Some v \<Rightarrow> num_value v)"
proof (cases "map_of ls label")
  case None
  then show ?thesis by (simp add: dict_get_obj)
next
  case (Some v)
  with assms(1) have "is_num v" by (simp add: opt_field_def)
  then show ?thesis
  proof (cases v)
    case (JInt n)
    with assms(2) Some have "\<bar>real_of_int n\<bar> < real_of_int float_limit" by simp
    then have "\<bar>n\<bar> < float_limit" by linarith
    then show ?thesis using Some JInt by (simp add: dict_get_obj)
  next
    case (JFloat x)
    then show ?thesis using Some by (simp add: dict_get_obj)
  qed simp_all
qed

lemma sample_teacher_probs_ok:
  assumes "record_ok sample" and "in_float_range sample"
  shows "sample_teacher_probs pf sample = Inr (map (teacher_score sample) LABEL_KEYS)"
proof -
  obtain kvs where s: "sample = JObj kvs" using assms by (cases sample) simp_all
  show ?thesis
  proof (cases "map_of kvs ''teacher''")
    case None
    then show ?thesis
      by (simp add: s sample_teacher_probs_def dict_get_obj teacher_score_def map_err_Inr)
  next
    case (Some t)
    with assms s have "teacher_ok t" by (simp add: opt_field_def)
    then obtain tk where t: "t = JObj tk" by (cases t) simp_all
    with \<open>teacher_ok t\<close> have l: "opt_field tk ''labels'' scores_ok" by simp
    show ?thesis
    proof (cases "map_of tk ''labels''")
      case None
      then show ?thesis using Some
        by (simp add: s t sample_teacher_probs_def dict_get_obj teacher_score_def map_err_Inr)
    next
      case inner: (Some ls)
      with l have "scores_ok ls" by (simp add: opt_field_def)
      then obtain lk where ls: "ls = JObj lk" by (cases ls) simp_all
      with \<open>scores_ok ls\<close> have all: "\<And>label. label \<in> set LABEL_KEYS \<Longrightarrow> opt_field lk label is_num"
        by (simp add: list_all_iff)
      have score: "teacher_score sample label
                     = (case map_of lk label of None \<Rightarrow> 0 | Some v \<Rightarrow> num_value v)" for label
        using Some inner by (simp add: s t ls teacher_score_def)
      have range: "\<And>label. label \<in> set LABEL_KEYS \<Longrightarrow>
          \<bar>case map_of lk label of None \<Rightarrow> 0 | Some v \<Rightarrow> num_value v\<bar> < real_of_int float_limit"
        using assms(2) unfolding in_float_range_def list_all_iff score by blast
      have "map_err (\<lambda>label. bind_err (dict_get (JObj lk) label (JFloat 0)) (py_float pf)) LABEL_KEYS
              = Inr (map (\<lambda>label. case map_of lk label of None \<Rightarrow> 0 | Some v \<Rightarrow> num_value v) LABEL_KEYS)"
        by (rule map_err_Inr) (simp add: score_lookup all range)
      then show ?thesis using Some inner
        by (simp add: s t ls sample_teacher_probs_def dict_get_obj teacher_score_def)
    qed
  qed
qed

lemma sample_labels_ok:
  assumes "record_ok sample"
  shows "sample_labels sample tprobs =
           Inr (if human_present sample
                then map (\<lambda>label. if human_marks sample label then 1 else 0) LABEL_KEYS
                else tprobs)"
proof -
  obtain kvs where s: "sample = JObj kvs" using assms by (cases sample) simp_all
  show ?thesis
  proof (cases "map_of kvs ''human_labels''")
    case None
    then show ?thesis by (simp add: s sample_labels_def dict_get_obj human_present_def)
  next
    case (Some h)
    with assms s obtain hk where h: "h = JObj hk" by (cases h) (simp_all add: opt_field_def)
    have "map_err (\<lambda>label. bind_err (dict_get (JObj hk) label JNull)
                      (\<lambda>v. Inr (if truthy v then 1 else (0::real)))) LABEL_KEYS
            = Inr (map (\<lambda>label. if (case map_of hk label of None \<Rightarrow> False | Some v \<Rightarrow> truthy v)
                                 then 1 else 0) LABEL_KEYS)"
      by (rule map_err_Inr) (simp add: dict_get_obj split: option.splits)
    then show ?thesis using Some
      by (simp add: s h sample_labels_def dict_get_obj human_present_def human_marks_def)
  qed
qed

lemma adapt_sample_ok:
  assumes "record_ok sample" and "in_float_range sample"
    and "tokenizer (JStr (post_text sample)) = Inr enc"
  shows "adapt_sample tokenizer pf sample =
           Inr \<lparr>inputs = enc,
                teacher_probs = map (teacher_score sample) LABEL_KEYS,
                labels = (if human_present sample
                          then map (\<lambda>label. if human_marks sample label then 1 else 0) LABEL_KEYS
                          else map (teacher_score sample) LABEL_KEYS)\<rparr>"
  using assms
  by (simp add: adapt_sample_def sample_text_ok sample_teacher_probs_ok sample_labels_ok)


lemma truth_entry_ok:
  assumes "record_ok sample" and "label \<in> set LABEL_KEYS"
  shows "truth_entry thr sample label =
           Inr (if human_marks sample label then 1
                else if thr \<le> teacher_score sample label then 1 else 0)"
proof -
  obtain kvs where s: "sample = JObj kvs" using assms by (cases sample) simp_all
  have teacher: "bind_err (dict_get sample ''teacher'' (JObj [])) (\<lambda>teacher.
         bind_err (dict_get teacher ''labels'' (JObj [])) (\<lambda>scores.
         bind_err (dict_get scores label (JInt 0)) (\<lambda>score.
         bind_err (py_ge score thr) (\<lambda>b. Inr (if b then 1 else (0::int))))))
       = Inr (if thr \<le> teacher_score sample label then 1 else 0)"
  proof (cases "map_of kvs ''teacher''")
    case None
    then show ?thesis by (simp add: s dict_get_obj teacher_score_def)
  next
    case (Some t)
    with assms s have "teacher_ok t" by (simp add: opt_field_def)
    then obtain tk where t: "t = JObj tk" by (cases t) simp_all
    with \<open>teacher_ok t\<close> have l: "opt_field tk ''labels'' scores_ok" by simp
    show ?thesis
    proof (cases "map_of tk ''labels''")
      case None
      then show ?thesis using Some by (simp add: s t dict_get_obj teacher_score_def)
    next
      case inner: (Some ls)
      with l have "scores_ok ls" by (simp add: opt_field_def)
      then obtain lk where ls: "ls = JObj lk" by (cases ls) simp_all
      with \<open>scores_ok ls\<close> assms(2) have n: "opt_field lk label is_num"
        by (simp add: list_all_iff)
      show ?thesis
      proof (cases "map_of lk label")
        case None
        then show ?thesis using Some inner by (simp add: s t ls dict_get_obj teacher_score_def)
      next
        case score: (Some v)
        with n have "is_num v" by (simp add: opt_field_def)
        then show ?thesis using Some inner score
          by (cases v) (simp_all add: s t ls dict_get_obj teacher_score_def)
      qed
    qed
  qed
  show ?thesis
  proof (cases "map_of kvs ''human_labels''")
    case None
    then show ?thesis using teacher
      by (simp add: s truth_entry_def dict_get_obj human_marks_def)
  next
    case (Some h)
    with assms s obtain hk where h: "h = JObj hk" by (cases h) (simp_all add: opt_field_def)
    show ?thesis using Some teacher
      by (simp add: s h truth_entry_def dict_get_obj human_marks_def split: option.splits)
  qed
qed

lemma truth_row_ok:
  assumes "record_ok sample"
  shows "truth_row thr sample =
           Inr (map (\<lambda>label. if human_marks sample label then 1
                             else if thr \<le> teacher_score sample label then 1 else 0) LABEL_KEYS)"
  unfolding truth_row_def by (rule map_err_Inr) (simp add: truth_entry_ok assms)

text \<open>
  What the adapter and the evaluator return whenever they return, on any loaded value.
\<close>

lemma map_err_result:
  assumes "map_err f xs = Inr ys" and "\<And>x v. x \<in> set xs \<Longrightarrow> f x = Inr v \<Longrightarrow> v = g x"
  shows "ys = map g xs"
  using assms
proof (induction xs arbitrary: ys)
  case Nil
  then show ?case by simp
next
  case (Cons x xs)
  then show ?case by (auto split: sum.splits)
qed

lemma sample_labels_result:
  assumes "sample_labels sample tprobs = Inr lbls"
  shows "lbls = (if human_present sample
                 then map (\<lambda>label. if human_marks sample label then 1 else 0) LABEL_KEYS
                 else tprobs)"
proof -
  obtain kvs where s: "sample = JObj kvs"
    using assms by (cases sample) (simp_all add: sample_labels_def dict_get_def)
  let ?h = "case map_of kvs ''human_labels'' of None \<Rightarrow> JNull | Some v \<Rightarrow> v"
  have hp: "human_present sample = truthy ?h"
    by (simp add: s human_present_def split: option.splits)
  show ?thesis
  proof (cases "truthy ?h")
    case False
    then show ?thesis using assms hp by (simp add: s sample_labels_def dict_get_obj)
  next
    case True
    then have m: "map_err (\<lambda>label. bind_err (dict_get ?h label JNull)
                     (\<lambda>v. Inr (if truthy v then 1 else 0))) LABEL_KEYS = Inr lbls"
      using assms by (simp add: s sample_labels_def dict_get_obj)
    have "lbls = map (\<lambda>label. if human_marks sample label then 1 else 0) LABEL_KEYS"
    proof (rule map_err_result [OF m])
      fix label v
      assume "bind_err (dict_get ?h label JNull) (\<lambda>v. Inr (if truthy v then 1 else 0)) = Inr (v::real)"
      then show "v = (if human_marks sample label then 1 else 0)"
        by (cases ?h) (auto simp: s dict_get_def human_marks_def split: option.splits)
    qed
    then show ?thesis using hp True by simp
  qed
qed

lemma adapt_sample_result:
  assumes "adapt_sample tokenizer pf sample = Inr it"
  shows "labels it = (if human_present sample
                      then map (\<lambda>label. if human_marks sample label then 1 else 0) LABEL_KEYS
                      else teacher_probs it)"
  using assms
  by (auto simp: adapt_sample_def bind_err_def split: sum.splits dest!: sample_labels_result)


lemma truth_entry_result:
  assumes "truth_entry thr sample label = Inr v"
  shows "v = (if human_marks sample label then 1
              else if thr \<le> teacher_score sample label then 1 else 0)"
proof -
  obtain kvs where s: "sample = JObj kvs"
    using assms by (cases sample) (simp_all add: truth_entry_def dict_get_def)
  let ?h = "case map_of kvs ''human_labels'' of None \<Rightarrow> JObj [] | Some u \<Rightarrow> u"
  obtain hk where h: "?h = JObj hk"
    using assms by (cases ?h) (simp_all add: s truth_entry_def dict_get_def)
  let ?u = "case map_of hk label of None \<Rightarrow> JNull | Some u \<Rightarrow> u"
  have marks: "human_marks sample label = truthy ?u"
    using h by (auto simp: s human_marks_def split: option.splits)
  show ?thesis
  proof (cases "truthy ?u")
    case True
    then show ?thesis using assms marks h by (simp add: s truth_entry_def dict_get_obj)
  next
    case False
    then have t: "bind_err (dict_get sample ''teacher'' (JObj [])) (\<lambda>teacher.
         bind_err (dict_get teacher ''labels'' (JObj [])) (\<lambda>scores.
         bind_err (dict_get scores label (JInt 0)) (\<lambda>score.
         bind_err (py_ge score thr) (\<lambda>b. Inr (if b then 1 else 0))))) = Inr v"
      using assms h by (simp add: s truth_entry_def dict_get_obj)
    let ?t = "case map_of kvs ''teacher'' of None \<Rightarrow> JObj [] | Some u \<Rightarrow> u"
    obtain tk where tk: "?t = JObj tk"
      using t by (cases ?t) (simp_all add: s dict_get_def)
    let ?l = "case map_of tk ''labels'' of None \<Rightarrow> JObj [] | Some u \<Rightarrow> u"
    obtain lk where lk: "?l = JObj lk"
      using t tk by (cases ?l) (simp_all add: s dict_get_def)
    let ?x = "case map_of lk label of None \<Rightarrow> JInt 0 | Some u \<Rightarrow> u"
    have x: "bind_err (py_ge ?x thr) (\<lambda>b. Inr (if b then 1 else 0)) = Inr v"
      using t tk lk by (simp add: s dict_get_obj)
    have score: "teacher_score sample label = num_value ?x"
      using tk lk by (auto simp: s teacher_score_def split: option.splits)
    have "v = (if thr \<le> num_value ?x then 1 else 0)"
      using x by (cases ?x) auto
    then show ?thesis using marks False score by simp
  qed
qed

lemma truth_row_result:
  assumes "truth_row thr sample = Inr row"
  shows "row = map (\<lambda>label. if human_marks sample label then 1
                            else if thr \<le> teacher_score sample label then 1 else 0) LABEL_KEYS"
  using assms unfolding truth_row_def
  by (rule map_err_result) (rule truth_entry_result)

lemma hard_labels_result:
  assumes "hard_labels_of thr data = Inr truth"
  shows "truth = map (\<lambda>sample. map (\<lambda>label. if human_marks sample label then 1
                                    else if thr \<le> teacher_score sample label then 1 else 0)
                                  LABEL_KEYS) data"
  using assms unfolding hard_labels_of_def
  by (rule map_err_result) (rule truth_row_result)

text \<open>
  Claim C2. Whenever the adapter returns an item, the supervision target \<open>labels\<close> of the
  item is the binary vector of the human labels (1 where \<^verbatim>\<open>human_labels\<close> maps the label
  to a truthy value, 0 elsewhere) when \<^verbatim>\<open>human_labels\<close> is present and truthy, and is
  the list \<open>teacher_probs\<close> of the same item otherwise; and the adapter does return an item
  for every record of the input format whose scores are within the range of a double.
\<close>

theorem supervision_target:
  "(record_ok sample \<and> in_float_range sample \<and> tokenizer (JStr (post_text sample)) = Inr enc
      \<longrightarrow> (\<exists>it. adapt_sample tokenizer pf sample = Inr it)) \<and>
   (\<forall>it. adapt_sample tokenizer pf sample = Inr it \<longrightarrow>
      labels it =
        (if human_present sample
         then map (\<lambda>label. if human_marks sample label then 1 else 0) LABEL_KEYS
         else teacher_probs it))"
  by (simp add: adapt_sample_ok adapt_sample_result)

lemma record_ok_scenario: "record_ok scenario"
  by (simp add: scenario_def opt_field_def LABEL_KEYS_def)

lemma scores_scenario:
  "map (teacher_score scenario) LABEL_KEYS = [9 / 10, 0, 0, 0, 0, 0, 0, 0, 0, 0, 0, 0, 0, 0, 8 / 10]"
  by (simp add: teacher_score_def scenario_def LABEL_KEYS_def)

lemma in_float_range_bounded:
  assumes "list_all (\<lambda>v. \<bar>v\<bar> \<le> 2) (map (teacher_score sample) LABEL_KEYS)"
  shows "in_float_range sample"
proof -
  have "(2::real) < real_of_int float_limit" using float_limit_gt by linarith
  then show ?thesis
    using assms unfolding in_float_range_def list_all_iff by fastforce
qed

lemma in_float_range_scenario: "in_float_range scenario"
  by (rule in_float_range_bounded) (simp add: scores_scenario)

lemma in_float_range_empty: "in_float_range (JObj [])"
  by (rule in_float_range_bounded) (simp add: teacher_score_def list_all_iff)

text \<open>The scenario with a human label: the target is 1 at \<^verbatim>\<open>humbleBragging\<close> only.\<close>

theorem supervision_target_witness:
  "record_ok scenario \<and> in_float_range scenario \<and>
   (\<exists>it. adapt_sample Inr Map.empty scenario = Inr it \<and>
         labels it = [1, 0, 0, 0, 0, 0, 0, 0, 0, 0, 0, 0, 0, 0, 0])"
proof -
  have hp: "human_present scenario" by (simp add: human_present_def scenario_def)
  have marks: "map (\<lambda>label. if human_marks scenario label then 1 else (0::real)) LABEL_KEYS
                 = [1, 0, 0, 0, 0, 0, 0, 0, 0, 0, 0, 0, 0, 0, 0]"
    by (simp add: human_marks_def scenario_def LABEL_KEYS_def)
  note inst = supervision_target [of scenario Inr "JStr (post_text scenario)" Map.empty]
  from inst record_ok_scenario in_float_range_scenario
  obtain it where it: "adapt_sample Inr Map.empty scenario = Inr it"
    by auto
  with inst hp marks have "labels it = [1, 0, 0, 0, 0, 0, 0, 0, 0, 0, 0, 0, 0, 0, 0]"
    by auto
  with it record_ok_scenario in_float_range_scenario show ?thesis by blast
qed

lemma map_err_length: "map_err f xs = Inr ys \<Longrightarrow> length ys = length xs"
  by (induction xs arbitrary: ys) (auto split: sum.splits)

lemma adapt_sample_length:
  assumes "adapt_sample tokenizer pf sample = Inr it"
  shows "length (teacher_probs it) = 15"
proof -
  have "sample_teacher_probs pf sample = Inr (teacher_probs it)"
    using assms by (auto simp: adapt_sample_def bind_err_def split: sum.splits)
  then show ?thesis
    by (auto simp: sample_teacher_probs_def bind_err_def length_LABEL_KEYS
        split: sum.splits dest: map_err_length)
qed

text \<open>
  Claim C7, amended. For a record of the input format whose scores are within the range of
  a double, with any of the post, its text, the teacher block, its labels and any label key
  missing, the adapter returns an item: the tokenizer is applied to the text of the post
  (the empty string when it is missing), entry \<open>i\<close> of \<open>teacher_probs\<close> is the teacher's score
  of label \<open>i\<close> (0 when missing), and every entry lies in \<open>[0,1]\<close> provided the scores of the
  record do. The adapter does not clamp: a score outside of \<open>[0,1]\<close> is passed on as it is.
  Whenever the adapter returns an item, on any record, \<open>teacher_probs\<close> has the 15 entries
  of the label schema.
\<close>

theorem adapter_succeeds:
  "(record_ok sample \<and> in_float_range sample \<and> tokenizer (JStr (post_text sample)) = Inr enc \<longrightarrow>
      (\<exists>it. adapt_sample tokenizer pf sample = Inr it \<and> inputs it = enc \<and>
            teacher_probs it = map (teacher_score sample) LABEL_KEYS \<and>
            (list_all (\<lambda>label. 0 \<le> teacher_score sample label \<and> teacher_score sample label \<le> 1)
                      LABEL_KEYS
             \<longrightarrow> list_all (\<lambda>p. 0 \<le> p \<and> p \<le> 1) (teacher_probs it)))) \<and>
   (\<forall>it. adapt_sample tokenizer pf sample = Inr it \<longrightarrow> length (teacher_probs it) = 15)"
  by (simp add: adapt_sample_ok adapt_sample_length list_all_iff)

text \<open>
  The scenario, with two scores present, and the empty record: the text or the empty
  string, the scores or fifteen zeros.
\<close>

theorem adapter_succeeds_witness:
  "record_ok scenario \<and> in_float_range scenario \<and> record_ok (JObj []) \<and> in_float_range (JObj []) \<and>
   (\<exists>it. adapt_sample Inr Map.empty scenario = Inr it \<and>
         inputs it = JStr ''Excited to announce my promotion!'' \<and>
         teacher_probs it = [9 / 10, 0, 0, 0, 0, 0, 0, 0, 0, 0, 0, 0, 0, 0, 8 / 10] \<and>
         length (teacher_probs it) = 15 \<and>
         list_all (\<lambda>p. 0 \<le> p \<and> p \<le> 1) (teacher_probs it)) \<and>
   (\<exists>it. adapt_sample Inr Map.empty (JObj []) = Inr it \<and> inputs it = JStr [] \<and>
         teacher_probs it = [0, 0, 0, 0, 0, 0, 0, 0, 0, 0, 0, 0, 0, 0, 0] \<and>
         length (teacher_probs it) = 15 \<and>
         list_all (\<lambda>p. 0 \<le> p \<and> p \<le> 1) (teacher_probs it))"
proof -
  have ok: "record_ok (JObj [])" by (simp add: opt_field_def)
  have ptext: "post_text (JObj []) = []" by (simp add: post_text_def)
  have stext: "post_text scenario = ''Excited to announce my promotion!''"
    by (simp add: post_text_def scenario_def)
  have sc: "map (teacher_score (JObj [])) LABEL_KEYS = [0, 0, 0, 0, 0, 0, 0, 0, 0, 0, 0, 0, 0, 0, 0]"
    by (simp add: teacher_score_def LABEL_KEYS_def)
  have un: "list_all (\<lambda>label. 0 \<le> teacher_score (JObj []) label \<and> teacher_score (JObj []) label \<le> 1)
              LABEL_KEYS"
    by (simp add: teacher_score_def list_all_iff)
  have sun: "list_all (\<lambda>label. 0 \<le> teacher_score scenario label \<and> teacher_score scenario label \<le> 1)
               LABEL_KEYS"
    by (simp add: teacher_score_def scenario_def LABEL_KEYS_def)
  note empty = adapter_succeeds [of "JObj []" Inr "JStr []" Map.empty]
  note scored = adapter_succeeds [of scenario Inr "JStr (post_text scenario)" Map.empty]
  from empty ok in_float_range_empty ptext un
  obtain it where it: "adapt_sample Inr Map.empty (JObj []) = Inr it" "inputs it = JStr []"
      "teacher_probs it = map (teacher_score (JObj [])) LABEL_KEYS"
      "list_all (\<lambda>p. 0 \<le> p \<and> p \<le> 1) (teacher_probs it)"
    by auto
  moreover from empty it(1) have "length (teacher_probs it) = 15" by blast
  ultimately have first: "\<exists>it. adapt_sample Inr Map.empty (JObj []) = Inr it \<and> inputs it = JStr [] \<and>
         teacher_probs it = [0, 0, 0, 0, 0, 0, 0, 0, 0, 0, 0, 0, 0, 0, 0] \<and>
         length (teacher_probs it) = 15 \<and>
         list_all (\<lambda>p. 0 \<le> p \<and> p \<le> 1) (teacher_probs it)"
    using sc by auto
  from scored record_ok_scenario in_float_range_scenario sun
  obtain it' where it': "adapt_sample Inr Map.empty scenario = Inr it'"
      "inputs it' = JStr (post_text scenario)"
      "teacher_probs it' = map (teacher_score scenario) LABEL_KEYS"
      "list_all (\<lambda>p. 0 \<le> p \<and> p \<le> 1) (teacher_probs it')"
    by auto
  moreover from scored it'(1) have "length (teacher_probs it') = 15" by blast
  ultimately have second: "\<exists>it. adapt_sample Inr Map.empty scenario = Inr it \<and>
         inputs it = JStr ''Excited to announce my promotion!'' \<and>
         teacher_probs it = [9 / 10, 0, 0, 0, 0, 0, 0, 0, 0, 0, 0, 0, 0, 0, 8 / 10] \<and>
         length (teacher_probs it) = 15 \<and>
         list_all (\<lambda>p. 0 \<le> p \<and> p \<le> 1) (teacher_probs it)"
    using scores_scenario stext by auto
  from first second ok record_ok_scenario in_float_range_scenario in_float_range_empty
  show ?thesis by blast
qed

text \<open>
  Claim C7 as stated fails on a record whose teacher block scores a label with 2: the
  adapter returns the 2 in \<open>teacher_probs\<close>.
\<close>

theorem adapter_range_counterexample:
  "adapt_sample Inr Map.empty
     (JObj [(''teacher'', JObj [(''labels'', JObj [(''humbleBragging'', JInt 2)])])])
   = Inr \<lparr>inputs = JStr [],
          teacher_probs = [2, 0, 0, 0, 0, 0, 0, 0, 0, 0, 0, 0, 0, 0, 0],
          labels = [2, 0, 0, 0, 0, 0, 0, 0, 0, 0, 0, 0, 0, 0, 0]\<rparr>"
  using float_limit_gt
  by (simp add: adapt_sample_def sample_text_def sample_teacher_probs_def sample_labels_def
      dict_get_def LABEL_KEYS_def)

text \<open>
  Outside of these records the adapter may raise: a post that is \<^verbatim>\<open>null\<close> has no
  \<^verbatim>\<open>get\<close>, and an integer score beyond the range of a double does not convert.
\<close>

lemma adapter_raises_on_null_post:
  "adapt_sample tokenizer pf (JObj [(''post'', JNull)]) = Inl AttributeError"
  by (simp add: adapt_sample_def sample_text_def dict_get_def)

lemma adapter_raises_on_huge_score:
  "adapt_sample tokenizer pf
     (JObj [(''teacher'', JObj [(''labels'', JObj [(''humbleBragging'', JInt (2 ^ 1024))])])])
   = Inl OverflowError"
  by (simp add: adapt_sample_def sample_text_def sample_teacher_probs_def dict_get_def
      LABEL_KEYS_def float_limit_def)

text \<open>
  Claim C3. Whenever the evaluator builds its ground truth, for every example and every
  label the entry is 1 if \<^verbatim>\<open>human_labels\<close> maps the label to a truthy value, and
  otherwise it is 1 exactly when the teacher's score of the label (0 when it is missing)
  is at least the threshold; and the ground truth is built for every dataset in the input
  format.
\<close>

theorem ground_truth:
  "(list_all record_ok data \<longrightarrow> (\<exists>truth. hard_labels_of thr data = Inr truth)) \<and>
   (\<forall>truth. hard_labels_of thr data = Inr truth \<longrightarrow>
      truth = map (\<lambda>sample. map (\<lambda>label. if human_marks sample label then 1
                                         else if thr \<le> teacher_score sample label then 1 else 0)
                               LABEL_KEYS) data)"
proof -
  have "list_all record_ok data \<Longrightarrow> \<exists>truth. hard_labels_of thr data = Inr truth"
    unfolding hard_labels_of_def
    by (rule exI, rule map_err_Inr) (simp add: truth_row_ok list_all_iff)
  then show ?thesis by (auto dest: hard_labels_result)
qed

text \<open>The scenario and the empty record at threshold 0.5.\<close>

theorem ground_truth_witness:
  "list_all record_ok [scenario, JObj []] \<and>
   hard_labels_of (1 / 2) [scenario, JObj []] =
     Inr [[1, 0, 0, 0, 0, 0, 0, 0, 0, 0, 0, 0, 0, 0, 1],
          [0, 0, 0, 0, 0, 0, 0, 0, 0, 0, 0, 0, 0, 0, 0]]"
proof -
  have ok: "list_all record_ok [scenario, JObj []]"
    by (simp add: record_ok_scenario opt_field_def)
  have r1: "map (\<lambda>label. if human_marks scenario label then 1
                          else if 1 / 2 \<le> teacher_score scenario label then 1 else (0::int)) LABEL_KEYS
              = [1, 0, 0, 0, 0, 0, 0, 0, 0, 0, 0, 0, 0, 0, 1]"
    by (simp add: human_marks_def teacher_score_def scenario_def LABEL_KEYS_def)
  have r2: "map (\<lambda>label. if human_marks (JObj []) label then 1
                          else if 1 / 2 \<le> teacher_score (JObj []) label then 1 else (0::int)) LABEL_KEYS
              = [0, 0, 0, 0, 0, 0, 0, 0, 0, 0, 0, 0, 0, 0, 0]"
    by (simp add: human_marks_def teacher_score_def LABEL_KEYS_def)
  note inst = ground_truth [of "[scenario, JObj []]" "1 / 2"]
  from inst ok obtain truth where t: "hard_labels_of (1 / 2) [scenario, JObj []] = Inr truth"
    by auto
  with inst r1 r2 have "truth = [[1, 0, 0, 0, 0, 0, 0, 0, 0, 0, 0, 0, 0, 0, 1],
                                 [0, 0, 0, 0, 0, 0, 0, 0, 0, 0, 0, 0, 0, 0, 0]]"
    by auto
  with t ok show ?thesis by simp
qed

text \<open>
  Claim C9. When human labels are present and truthy, a label that they do not mark but
  that the teacher scores at or above the threshold has supervision target 0 and evaluation
  ground truth 1, whenever the adapter and the evaluator return for the example; and both
  return for every record of the input format whose scores are within the range of a
  double.
\<close>

theorem target_truth_divergence:
  assumes "human_present sample" and "i < length LABEL_KEYS"
    and "\<not> human_marks sample (LABEL_KEYS ! i)"
    and "thr \<le> teacher_score sample (LABEL_KEYS ! i)"
  shows "(record_ok sample \<and> in_float_range sample \<and> tokenizer (JStr (post_text sample)) = Inr enc
            \<longrightarrow> (\<exists>it row. adapt_sample tokenizer pf sample = Inr it \<and>
                         truth_row thr sample = Inr row)) \<and>
         (\<forall>it row. adapt_sample tokenizer pf sample = Inr it \<and> truth_row thr sample = Inr row
            \<longrightarrow> labels it ! i = 0 \<and> row ! i = 1)"
proof -
  have "labels it ! i = 0 \<and> row ! i = 1"
    if "adapt_sample tokenizer pf sample = Inr it" and "truth_row thr sample = Inr row" for it row
    using assms adapt_sample_result [OF that(1)] truth_row_result [OF that(2)] by simp
  then show ?thesis by (simp add: adapt_sample_ok truth_row_ok)
qed

text \<open>In the scenario this is the label \<^verbatim>\<open>overall_cringe\<close>, at index 14.\<close>

theorem target_truth_divergence_witness:
  "record_ok scenario \<and> in_float_range scenario \<and> human_present scenario \<and> (14::nat) < length LABEL_KEYS \<and>
   \<not> human_marks scenario (LABEL_KEYS ! 14) \<and> 1 / 2 \<le> teacher_score scenario (LABEL_KEYS ! 14) \<and>
   (\<exists>it row. adapt_sample Inr Map.empty scenario = Inr it \<and> truth_row (1 / 2) scenario = Inr row \<and>
             labels it ! 14 = 0 \<and> row ! 14 = 1)"
proof -
  have k: "LABEL_KEYS ! 14 = ''overall_cringe''" by (simp add: LABEL_KEYS_def)
  have a: "human_present scenario" by (simp add: human_present_def scenario_def)
  have b: "(14::nat) < length LABEL_KEYS" by (simp add: length_LABEL_KEYS)
  have c: "\<not> human_marks scenario (LABEL_KEYS ! 14)"
    by (simp add: k human_marks_def scenario_def)
  have d: "1 / 2 \<le> teacher_score scenario (LABEL_KEYS ! 14)"
    by (simp add: k teacher_score_def scenario_def)
  note inst = target_truth_divergence [OF a b c d, of Inr "JStr (post_text scenario)" Map.empty]
  from inst record_ok_scenario in_float_range_scenario obtain it row
    where r: "adapt_sample Inr Map.empty scenario = Inr it" "truth_row (1 / 2) scenario = Inr row"
    by auto
  with inst have "labels it ! 14 = 0 \<and> row ! 14 = 1" by blast
  with r record_ok_scenario in_float_range_scenario a b c d show ?thesis by blast
qed

text \<open>\<^verbatim>\<open>__getitem__\<close> is the adapter on the indexed sample.\<close>

lemma getitem_in_range:
  assumes "0 \<le> idx" and "idx < int (length data)"
  shows "getitem tokenizer pf data idx = adapt_sample tokenizer pf (data ! nat idx)"
  using assms by (simp add: getitem_def list_index_def)

lemma getitem_out_of_range:
  assumes "int (length data) \<le> idx"
  shows "getitem tokenizer pf data idx = Inl IndexError"
  using assms by (simp add: getitem_def list_index_def)

section \<open>The value of the loss\<close>

lemma those_map_Some:
  "(\<And>x. x \<in> set xs \<Longrightarrow> f x = Some (g x)) \<Longrightarrow> those (map f xs) = Some (map g xs)"
  by (induction xs) simp_all

lemma those_Some_list: "those (map Some xs) = Some xs"
  by (induction xs) simp_all

lemma torch_pow_nonneg: "0 \<le> x \<Longrightarrow> 0 < a \<Longrightarrow> torch_pow x a = Some (x powr a)"
  by (simp add: torch_pow_def)

lemma teacher_soft_row_nonneg:
  assumes "list_all (\<lambda>v. 0 \<le> v) ps" and "0 < a"
  shows "teacher_soft_row a ps = Some (soft_row a ps)"
proof -
  have "those (map (\<lambda>p. torch_pow p a) ps) = Some (map (\<lambda>p. p powr a) ps)"
    using assms by (intro those_map_Some) (simp add: torch_pow_nonneg list_all_iff)
  then show ?thesis by (simp add: teacher_soft_row_def soft_row_def o_def)
qed

lemma teacher_soft_rows_nonneg:
  assumes "nonneg_rows p" and "0 < a"
  shows "those (map (teacher_soft_row a) p) = Some (map (soft_row a) p)"
  using assms
  by (intro those_map_Some) (simp add: teacher_soft_row_nonneg nonneg_rows_def list_all_iff)

lemma soft_row_nonneg:
  assumes "v \<in> set (soft_row a ps)"
  shows "0 \<le> v"
proof -
  have "0 \<le> max (sum_list (map (\<lambda>p. p powr a) ps)) (1 / 10 ^ 9)" by simp
  then show ?thesis using assms by (auto simp: soft_row_def)
qed

lemma kl_pointwise_nonneg: "0 \<le> t \<Longrightarrow> kl_pointwise l t = Some (kl_point l t)"
  by (simp add: kl_pointwise_def kl_point_def)

lemma map2_kl_pointwise:
  "list_all (\<lambda>v. 0 \<le> v) ts \<Longrightarrow> map2 kl_pointwise ls ts = map Some (map2 kl_point ls ts)"
  by (induction ls ts rule: list_induct2') (simp_all add: kl_pointwise_nonneg)

lemma sum_list_concat_rows: "sum_list (concat xss) = sum_list (map sum_list xss)"
  by (induction xss) simp_all

lemma concat_map2_kl_pointwise:
  "nonneg_rows tgt \<Longrightarrow>
     concat (map2 (map2 kl_pointwise) inp tgt) = map Some (concat (map2 (map2 kl_point) inp tgt))"
  unfolding nonneg_rows_def
  by (induction inp tgt rule: list_induct2') (simp_all add: map2_kl_pointwise)

lemma kl_div_batchmean_nonneg:
  assumes "inp \<noteq> []" and "nonneg_rows tgt"
  shows "kl_div_batchmean inp tgt
           = Some (sum_list (map2 (\<lambda>l t. sum_list (map2 kl_point l t)) inp tgt) / real (length inp))"
proof -
  have "sum_list (concat (map2 (map2 kl_point) inp tgt))
          = sum_list (map2 (\<lambda>l t. sum_list (map2 kl_point l t)) inp tgt)"
    by (simp add: sum_list_concat_rows o_def split_def)
  then show ?thesis
    using assms by (simp add: kl_div_batchmean_def concat_map2_kl_pointwise those_Some_list)
qed

lemma sum_list_map_nth: "sum_list (map f xs) = (\<Sum>k<length xs. f (xs ! k))"
proof -
  have "sum_list (map f xs) = (\<Sum>k = 0..<length (map f xs). map f xs ! k)"
    by (rule sum_list_sum_nth)
  also have "\<dots> = (\<Sum>k<length xs. f (xs ! k))"
    by (simp add: atLeast0LessThan)
  finally show ?thesis .
qed

lemma sum_list_map2_nth:
  assumes "length xs = n" and "length ys = n"
  shows "sum_list (map2 f xs ys) = (\<Sum>k<n. f (xs ! k) (ys ! k))"
proof -
  have "sum_list (map2 f xs ys) = (\<Sum>k<length (zip xs ys). (\<lambda>z. f (fst z) (snd z)) (zip xs ys ! k))"
    by (simp add: sum_list_map_nth split_def)
  also have "\<dots> = (\<Sum>k<n. f (xs ! k) (ys ! k))"
    using assms by simp
  finally show ?thesis .
qed

lemma has_shape_length: "has_shape b n m \<Longrightarrow> length m = b"
  by (simp add: has_shape_def)

lemma has_shape_row: "has_shape b n m \<Longrightarrow> i < b \<Longrightarrow> length (m ! i) = n"
  by (simp add: has_shape_def list_all_length)

lemma sum_rows_nth:
  assumes "has_shape b n u" and "has_shape b n w"
  shows "sum_list (map2 (\<lambda>l t. sum_list (map2 f l t)) u w)
           = (\<Sum>i<b. \<Sum>j<n. f (u ! i ! j) (w ! i ! j))"
proof -
  have "sum_list (map2 (\<lambda>l t. sum_list (map2 f l t)) u w)
          = (\<Sum>i<b. sum_list (map2 f (u ! i) (w ! i)))"
    using assms by (intro sum_list_map2_nth) (simp_all add: has_shape_length)
  also have "\<dots> = (\<Sum>i<b. \<Sum>j<n. f (u ! i ! j) (w ! i ! j))"
    using assms by (intro sum.cong refl sum_list_map2_nth) (simp_all add: has_shape_row)
  finally show ?thesis .
qed

lemma length_concat_map2:
  assumes "has_shape b n u" and "has_shape b n w"
  shows "length (concat (map2 (map2 f) u w)) = b * n"
proof -
  have "length (concat (map2 (map2 f) u w)) = sum_list (map2 (\<lambda>l t. length (map2 f l t)) u w)"
    by (simp add: length_concat o_def split_def)
  also have "\<dots> = (\<Sum>i<b. length (map2 f (u ! i) (w ! i)))"
    using assms by (intro sum_list_map2_nth) (simp_all add: has_shape_length)
  also have "\<dots> = (\<Sum>i<b. n)"
    using assms by (intro sum.cong refl) (simp add: has_shape_row)
  finally show ?thesis by simp
qed

lemma bce_with_logits_mean_value:
  assumes "has_shape b n x" and "has_shape b n y" and "0 < b" and "0 < n"
  shows "bce_with_logits_mean x y = Some (bce_mean_spec b n x y)"
proof -
  let ?vs = "concat (map2 (map2 bce_pointwise) x y)"
  have len: "length ?vs = b * n" using assms by (intro length_concat_map2)
  have "0 < length ?vs" unfolding len using assms by simp
  then have ne: "?vs \<noteq> []" by (metis length_greater_0_conv)
  have "sum_list ?vs = sum_list (map2 (\<lambda>l t. sum_list (map2 bce_pointwise l t)) x y)"
    by (simp add: sum_list_concat_rows o_def split_def)
  also have "\<dots> = (\<Sum>i<b. \<Sum>j<n. bce_pointwise (x ! i ! j) (y ! i ! j))"
    using assms by (intro sum_rows_nth)
  finally have total: "sum_list ?vs = (\<Sum>i<b. \<Sum>j<n. bce_pointwise (x ! i ! j) (y ! i ! j))" .
  have "bce_with_logits_mean x y = Some (sum_list ?vs / real (length ?vs))"
    unfolding bce_with_logits_mean_def Let_def by (simp only: ne if_False)
  then show ?thesis
    unfolding total len by (simp add: bce_mean_spec_def bce_pointwise_def)
qed

lemma soft_row_nth:
  assumes "j < length ps" and "T \<noteq> 0"
  shows "soft_row (1 / T) ps ! j = teacher_soft_spec T ps j"
  using assms by (simp add: soft_row_def teacher_soft_spec_def sum_list_map_nth)

lemma log_softmax_row_nth:
  assumes "j < length zs"
  shows "log_softmax_row zs ! j = log_softmax_spec zs j"
proof -
  have pos: "0 < (\<Sum>k<length zs. exp (zs ! k))"
    using assms by (intro sum_pos) auto
  then show ?thesis
    using assms by (simp add: log_softmax_row_def log_softmax_spec_def sum_list_map_nth ln_div)
qed

lemma kl_point_eq: "kl_point l t = t * (ln t - l)"
  by (simp add: kl_point_def algebra_simps)

lemma nonneg_rows_soft: "nonneg_rows (map (soft_row a) p)"
  by (auto simp: nonneg_rows_def list_all_iff dest: soft_row_nonneg)

lemma has_shape_soft: "has_shape b n p \<Longrightarrow> has_shape b n (map (soft_row a) p)"
  by (simp add: has_shape_def list_all_iff soft_row_def)

lemma has_shape_log_soft:
  "has_shape b n x \<Longrightarrow> has_shape b n (map (\<lambda>row. log_softmax_row (map f row)) x)"
  by (simp add: has_shape_def list_all_iff log_softmax_row_def)

lemma kl_term_value:
  assumes "has_shape b n x" and "has_shape b n p" and "0 < b" and "0 < T" and "nonneg_rows p"
  shows "kl_term x p T =
           Some (kl_batchmean_spec b n
                   (\<lambda>i. log_softmax_spec (map (\<lambda>v. v / T) (x ! i)))
                   (\<lambda>i. teacher_soft_spec T (p ! i)) * (T * T))"
proof -
  let ?ls = "map (\<lambda>row. log_softmax_row (map (\<lambda>v. v / T) row)) x"
  let ?ts = "map (soft_row (1 / T)) p"
  have soft: "those (map (teacher_soft_row (1 / T)) p) = Some ?ts"
    using assms by (intro teacher_soft_rows_nonneg) simp_all
  have ne: "?ls \<noteq> []" using assms by (auto simp: has_shape_def)
  have lx: "length x = b" and lp: "length p = b"
    using assms by (simp_all add: has_shape_length)
  have "sum_list (map2 (\<lambda>l t. sum_list (map2 kl_point l t)) ?ls ?ts)
          = (\<Sum>i<b. \<Sum>j<n. kl_point (?ls ! i ! j) (?ts ! i ! j))"
    using assms by (intro sum_rows_nth has_shape_soft has_shape_log_soft)
  also have "\<dots> = (\<Sum>i<b. \<Sum>j<n. teacher_soft_spec T (p ! i) j
                        * (ln (teacher_soft_spec T (p ! i) j)
                           - log_softmax_spec (map (\<lambda>v. v / T) (x ! i)) j))"
  proof (intro sum.cong refl)
    fix i j assume "i \<in> {..<b}" and "j \<in> {..<n}"
    then have i: "i < b" and j: "j < n" by simp_all
    have "length (x ! i) = n" and "length (p ! i) = n"
      using assms i by (simp_all add: has_shape_row)
    then show "kl_point (?ls ! i ! j) (?ts ! i ! j)
                 = teacher_soft_spec T (p ! i) j
                   * (ln (teacher_soft_spec T (p ! i) j)
                      - log_softmax_spec (map (\<lambda>v. v / T) (x ! i)) j)"
      using i j lx lp assms(4) by (simp add: kl_point_eq soft_row_nth log_softmax_row_nth)
  qed
  finally have "kl_div_batchmean ?ls ?ts
      = Some (kl_batchmean_spec b n (\<lambda>i. log_softmax_spec (map (\<lambda>v. v / T) (x ! i)))
                (\<lambda>i. teacher_soft_spec T (p ! i)))"
    using ne lx by (simp add: kl_div_batchmean_nonneg nonneg_rows_soft kl_batchmean_spec_def)
  then show ?thesis by (simp add: kl_term_def soft Let_def)
qed

lemma kd_loss_value:
  assumes "has_shape b n x" and "has_shape b n p" and "has_shape b n y"
    and "0 < b" and "0 < n" and "0 < T" and "nonneg_rows p"
  shows "kd_loss x p y T akl ace = Inr (Some (kd_loss_spec b n x p y T akl ace))"
  using assms
  by (simp add: kd_loss_def Let_def kl_term_value bce_with_logits_mean_value kd_loss_spec_def
      power2_eq_square algebra_simps)

section \<open>The sign of the loss\<close>

lemma gibbs_pointwise:
  fixes t q :: real
  assumes "0 \<le> t" and "0 \<le> q" and "0 < t \<Longrightarrow> 0 < q"
  shows "t - q \<le> t * (ln t - ln q)"
proof (cases "t = 0")
  case True
  then show ?thesis using assms by simp
next
  case False
  then have t: "0 < t" using assms by simp
  then have q: "0 < q" using assms by simp
  have "ln (q / t) \<le> q / t - 1" using t q by (intro ln_le_minus_one) simp
  then have "t * ln (q / t) \<le> t * (q / t - 1)" using t by (intro mult_left_mono) simp_all
  also have "\<dots> = q - t" using t by (simp add: field_simps)
  finally have "t * (ln q - ln t) \<le> q - t" using t q by (simp add: ln_div)
  then show ?thesis by (simp add: algebra_simps)
qed

lemma gibbs_pointwise_strict:
  fixes t q :: real
  assumes "0 < t" and "0 < q" and "t \<noteq> q"
  shows "t - q < t * (ln t - ln q)"
proof -
  have ne: "q / t \<noteq> 1" using assms by simp
  have le: "ln (q / t) \<le> q / t - 1" using assms by (intro ln_le_minus_one) simp
  have "ln (q / t) \<noteq> q / t - 1"
    using ln_eq_minus_one [of "q / t"] assms ne by auto
  with le have "ln (q / t) < q / t - 1" by simp
  then have "t * ln (q / t) < t * (q / t - 1)" using assms by (intro mult_strict_left_mono) simp_all
  also have "\<dots> = q - t" using assms by (simp add: field_simps)
  finally have "t * (ln q - ln t) < q - t" using assms by (simp add: ln_div)
  then show ?thesis by (simp add: algebra_simps)
qed

lemma gibbs:
  fixes t q :: "nat \<Rightarrow> real"
  assumes "\<And>j. j < n \<Longrightarrow> 0 \<le> t j" and "\<And>j. j < n \<Longrightarrow> 0 \<le> q j"
    and "\<And>j. j < n \<Longrightarrow> 0 < t j \<Longrightarrow> 0 < q j"
    and "(\<Sum>j<n. q j) \<le> (\<Sum>j<n. t j)"
  shows "0 \<le> (\<Sum>j<n. t j * (ln (t j) - ln (q j)))"
proof -
  have "0 \<le> (\<Sum>j<n. t j) - (\<Sum>j<n. q j)" using assms(4) by simp
  also have "\<dots> = (\<Sum>j<n. t j - q j)" by (simp add: sum_subtractf)
  also have "\<dots> \<le> (\<Sum>j<n. t j * (ln (t j) - ln (q j)))"
    using assms by (intro sum_mono gibbs_pointwise) simp_all
  finally show ?thesis .
qed

lemma gibbs_strict:
  fixes t q :: "nat \<Rightarrow> real"
  assumes "\<And>j. j < n \<Longrightarrow> 0 \<le> t j" and "\<And>j. j < n \<Longrightarrow> 0 \<le> q j"
    and "\<And>j. j < n \<Longrightarrow> 0 < t j \<Longrightarrow> 0 < q j"
    and "(\<Sum>j<n. q j) \<le> (\<Sum>j<n. t j)"
    and "k < n" and "0 < t k" and "t k \<noteq> q k"
  shows "0 < (\<Sum>j<n. t j * (ln (t j) - ln (q j)))"
proof -
  have "0 \<le> (\<Sum>j<n. t j) - (\<Sum>j<n. q j)" using assms(4) by simp
  also have "\<dots> = (\<Sum>j<n. t j - q j)" by (simp add: sum_subtractf)
  also have "\<dots> < (\<Sum>j<n. t j * (ln (t j) - ln (q j)))"
  proof (rule sum_strict_mono_ex1)
    show "finite {..<n}" by simp
    show "\<forall>j\<in>{..<n}. t j - q j \<le> t j * (ln (t j) - ln (q j))"
      using assms by (auto intro!: gibbs_pointwise)
    have "t k - q k < t k * (ln (t k) - ln (q k))"
      using assms by (intro gibbs_pointwise_strict) simp_all
    then show "\<exists>j\<in>{..<n}. t j - q j < t j * (ln (t j) - ln (q j))"
      using assms(5) by auto
  qed
  finally show ?thesis .
qed

lemma log_softmax_spec_eq:
  fixes z :: "real list"
  assumes "j < length z"
  shows "log_softmax_spec z j = ln (exp (z ! j) / (\<Sum>k<length z. exp (z ! k)))"
  by (simp add: log_softmax_spec_def)

lemma softmax_pos:
  fixes z :: "real list"
  assumes "j < length z"
  shows "0 < exp (z ! j) / (\<Sum>k<length z. exp (z ! k))"
proof -
  have "0 < (\<Sum>k<length z. exp (z ! k))" using assms by (intro sum_pos) auto
  then show ?thesis by simp
qed

lemma softmax_sum:
  fixes z :: "real list"
  assumes "z \<noteq> []"
  shows "(\<Sum>j<length z. exp (z ! j) / (\<Sum>k<length z. exp (z ! k))) = 1"
proof -
  have "0 < (\<Sum>k<length z. exp (z ! k))" using assms by (intro sum_pos) auto
  then show ?thesis by (simp add: sum_divide_distrib [symmetric])
qed

lemma teacher_soft_spec_nonneg: "0 \<le> teacher_soft_spec T p j"
  by (simp add: teacher_soft_spec_def)

lemma teacher_soft_spec_sum:
  assumes "1 / 10 ^ 9 \<le> (\<Sum>k<length p. (p ! k) powr (1 / T))"
  shows "(\<Sum>j<length p. teacher_soft_spec T p j) = 1"
proof -
  let ?S = "\<Sum>k<length p. (p ! k) powr (1 / T)"
  have "0 < ?S" using assms by (rule less_le_trans [rotated]) simp
  moreover have "max ?S (1 / 10 ^ 9) = ?S" using assms by (simp add: max_def)
  ultimately show ?thesis
    unfolding teacher_soft_spec_def by (simp add: sum_divide_distrib [symmetric])
qed

lemma teacher_soft_spec_zero:
  assumes "list_all (\<lambda>v. v = 0) p" and "j < length p"
  shows "teacher_soft_spec T p j = 0"
  using assms by (simp add: teacher_soft_spec_def list_all_length)

lemma kl_row_nonneg:
  assumes "length z = n" and "length p = n" and "0 < n" and "floor_inactive T p"
  shows "0 \<le> (\<Sum>j<n. teacher_soft_spec T p j
                       * (ln (teacher_soft_spec T p j) - log_softmax_spec z j))"
proof (cases "list_all (\<lambda>v. v = 0) p")
  case True
  then have "\<And>j. j < n \<Longrightarrow> teacher_soft_spec T p j = 0"
    using assms by (simp add: teacher_soft_spec_zero)
  then show ?thesis by simp
next
  case False
  with assms have S: "1 / 10 ^ 9 \<le> (\<Sum>k<length p. (p ! k) powr (1 / T))"
    by (simp add: floor_inactive_def sum_list_map_nth)
  let ?q = "\<lambda>j. exp (z ! j) / (\<Sum>k<length z. exp (z ! k))"
  have z: "z \<noteq> []" using assms by auto
  have "0 \<le> (\<Sum>j<n. teacher_soft_spec T p j * (ln (teacher_soft_spec T p j) - ln (?q j)))"
  proof (rule gibbs)
    show "\<And>j. j < n \<Longrightarrow> 0 \<le> teacher_soft_spec T p j" by (rule teacher_soft_spec_nonneg)
    show "\<And>j. j < n \<Longrightarrow> 0 \<le> ?q j" using assms softmax_pos [of _ z] by (simp add: less_imp_le)
    show "\<And>j. j < n \<Longrightarrow> 0 < teacher_soft_spec T p j \<Longrightarrow> 0 < ?q j"
      using assms softmax_pos [of _ z] by simp
    show "(\<Sum>j<n. ?q j) \<le> (\<Sum>j<n. teacher_soft_spec T p j)"
      using softmax_sum [OF z] teacher_soft_spec_sum [OF S] assms by simp
  qed
  then show ?thesis by (simp add: log_softmax_spec_def)
qed

lemma sigmoid_bounds: "0 < sigmoid x \<and> sigmoid x < 1"
proof -
  have e: "0 < exp (- x)" by simp
  have pos: "0 < 1 + exp (- x)" using e by linarith
  have gt: "1 < 1 + exp (- x)" using e by linarith
  have "0 < 1 / (1 + exp (- x))" using pos by (rule divide_pos_pos [OF zero_less_one])
  moreover have "1 / (1 + exp (- x)) < 1" using gt pos by (subst divide_less_eq) simp
  ultimately show ?thesis by (simp only: sigmoid_def)
qed

lemma bce_term_nonneg:
  assumes "0 \<le> y" and "y \<le> 1"
  shows "0 \<le> - (y * ln (sigmoid x) + (1 - y) * ln (1 - sigmoid x))"
proof -
  have s: "0 < sigmoid x" "sigmoid x < 1" using sigmoid_bounds by simp_all
  then have "ln (sigmoid x) \<le> 0" and "ln (1 - sigmoid x) \<le> 0" by simp_all
  then have "y * ln (sigmoid x) \<le> 0" and "(1 - y) * ln (1 - sigmoid x) \<le> 0"
    using assms by (simp_all add: mult_nonneg_nonpos)
  then show ?thesis by simp
qed

lemma unit_rows_nth:
  "unit_rows m \<Longrightarrow> i < length m \<Longrightarrow> j < length (m ! i) \<Longrightarrow> 0 \<le> m ! i ! j \<and> m ! i ! j \<le> 1"
  by (simp add: unit_rows_def list_all_length)

lemma bce_mean_spec_nonneg:
  assumes "has_shape b n y" and "unit_rows y"
  shows "0 \<le> bce_mean_spec b n x y"
proof -
  have "0 \<le> (\<Sum>i<b. \<Sum>j<n. - (y ! i ! j * ln (sigmoid (x ! i ! j))
                          + (1 - y ! i ! j) * ln (1 - sigmoid (x ! i ! j))))"
  proof (intro sum_nonneg bce_term_nonneg)
    fix i j assume "i \<in> {..<b}" and "j \<in> {..<n}"
    then have "i < length y" and "j < length (y ! i)"
      using assms by (simp_all add: has_shape_length has_shape_row)
    then show "0 \<le> y ! i ! j" and "y ! i ! j \<le> 1"
      using unit_rows_nth [OF assms(2)] by simp_all
  qed
  then show ?thesis by (simp add: bce_mean_spec_def)
qed

lemma kl_batchmean_spec_nonneg:
  assumes "has_shape b n x" and "has_shape b n p" and "0 < n"
    and "list_all (floor_inactive T) p"
  shows "0 \<le> kl_batchmean_spec b n
                 (\<lambda>i. log_softmax_spec (map (\<lambda>v. v / T) (x ! i)))
                 (\<lambda>i. teacher_soft_spec T (p ! i))"
proof -
  have "0 \<le> (\<Sum>i<b. \<Sum>j<n. teacher_soft_spec T (p ! i) j
                * (ln (teacher_soft_spec T (p ! i) j)
                   - log_softmax_spec (map (\<lambda>v. v / T) (x ! i)) j))"
  proof (rule sum_nonneg)
    fix i assume "i \<in> {..<b}"
    then have i: "i < b" by simp
    have "length (map (\<lambda>v. v / T) (x ! i)) = n" using assms i by (simp add: has_shape_row)
    moreover have "length (p ! i) = n" using assms i by (simp add: has_shape_row)
    moreover have "floor_inactive T (p ! i)"
      using assms i by (simp add: list_all_length has_shape_length)
    ultimately show "0 \<le> (\<Sum>j<n. teacher_soft_spec T (p ! i) j
                * (ln (teacher_soft_spec T (p ! i) j)
                   - log_softmax_spec (map (\<lambda>v. v / T) (x ! i)) j))"
      using assms(3) by (intro kl_row_nonneg)
  qed
  then show ?thesis by (simp add: kl_batchmean_spec_def)
qed

lemma kd_loss_spec_nonneg:
  assumes "has_shape b n x" and "has_shape b n p" and "has_shape b n y" and "0 < n"
    and "0 \<le> akl" and "0 \<le> ace" and "unit_rows y" and "list_all (floor_inactive T) p"
  shows "0 \<le> kd_loss_spec b n x p y T akl ace"
  unfolding kd_loss_spec_def using assms
  by (intro add_nonneg_nonneg mult_nonneg_nonneg kl_batchmean_spec_nonneg bce_mean_spec_nonneg)
     simp_all

section \<open>The loss at the sample inputs\<close>

lemma sqrt_tiny: "(1 / 10 ^ 20 :: real) powr (1 / 2) = 1 / 10 ^ 10"
proof -
  have "(1 / 10 ^ 20 :: real) = (1 / 10 ^ 10)\<^sup>2" by (simp add: power2_eq_square)
  then have "(1 / 10 ^ 20 :: real) powr (1 / 2) = sqrt ((1 / 10 ^ 10)\<^sup>2)"
    by (simp only: powr_half_sqrt zero_le_power2)
  then show ?thesis by simp
qed

lemma sqrt_tiny_num: "(1 / 100000000000000000000 :: real) powr (1 / 2) = 1 / 10000000000"
  using sqrt_tiny by simp

lemma sqrt_scaled: "(1 / 10 ^ 18 :: real) powr (1 / 2) = 1 / 10 ^ 9"
proof -
  have "(1 / 10 ^ 18 :: real) = (1 / 10 ^ 9)\<^sup>2" by (simp add: power2_eq_square)
  then have "(1 / 10 ^ 18 :: real) powr (1 / 2) = sqrt ((1 / 10 ^ 9)\<^sup>2)"
    by (simp only: powr_half_sqrt zero_le_power2)
  then show ?thesis by simp
qed

lemma sqrt_scaled_num: "(1 / 1000000000000000000 :: real) powr (1 / 2) = 1 / 1000000000"
  using sqrt_scaled by simp

lemma soft_tiny:
  "teacher_soft_row (1 / 2) tiny_probs = Some [1 / 10, 0, 0, 0, 0, 0, 0, 0, 0, 0, 0, 0, 0, 0, 0]"
  by (simp add: teacher_soft_row_def tiny_probs_def torch_pow_def sqrt_tiny_num)

lemma soft_scaled:
  "teacher_soft_row (1 / 2) (map (\<lambda>v. 100 * v) tiny_probs)
     = Some [1, 0, 0, 0, 0, 0, 0, 0, 0, 0, 0, 0, 0, 0, 0]"
  by (simp add: teacher_soft_row_def tiny_probs_def torch_pow_def sqrt_scaled_num)

lemma log_soft_zero:
  "log_softmax_row (map (\<lambda>x. x / 2) zero_logits)
     = [- ln 15, - ln 15, - ln 15, - ln 15, - ln 15, - ln 15, - ln 15, - ln 15,
        - ln 15, - ln 15, - ln 15, - ln 15, - ln 15, - ln 15, - ln 15]"
  by (simp add: log_softmax_row_def zero_logits_def)

lemma kl_tiny:
  "kl_term [zero_logits] [tiny_probs] 2 = Some ((1 / 10 * ln (1 / 10) + 1 / 10 * ln 15) * 4)"
  by (simp add: kl_term_def soft_tiny log_soft_zero kl_div_batchmean_def kl_pointwise_def)

lemma kl_scaled:
  "kl_term [zero_logits] [map (\<lambda>v. 100 * v) tiny_probs] 2 = Some (ln 15 * 4)"
  by (simp add: kl_term_def soft_scaled log_soft_zero kl_div_batchmean_def kl_pointwise_def)

lemma kl_values_differ: "(1 / 10 * ln (1 / 10) + 1 / 10 * ln 15) * 4 < ln 15 * (4::real)"
proof -
  have a: "ln (1 / 10 :: real) = - ln 10" by (simp add: ln_div)
  have b: "ln (10::real) > 0" by simp
  have c: "ln (15::real) > 0" by simp
  have "1 / 10 * ln (1 / 10) + 1 / 10 * ln 15 < 1 / 10 * ln (15::real)"
    using a b by simp
  also have "\<dots> \<le> ln 15" using c by simp
  finally show ?thesis by simp
qed

lemma log_soft_peaked:
  "log_softmax_row (map (\<lambda>x. x / 2) peaked_logits)
     = [10 - ln (exp 10 + 14 * exp (- 10)),
        - 10 - ln (exp 10 + 14 * exp (- 10)), - 10 - ln (exp 10 + 14 * exp (- 10)),
        - 10 - ln (exp 10 + 14 * exp (- 10)), - 10 - ln (exp 10 + 14 * exp (- 10)),
        - 10 - ln (exp 10 + 14 * exp (- 10)), - 10 - ln (exp 10 + 14 * exp (- 10)),
        - 10 - ln (exp 10 + 14 * exp (- 10)), - 10 - ln (exp 10 + 14 * exp (- 10)),
        - 10 - ln (exp 10 + 14 * exp (- 10)), - 10 - ln (exp 10 + 14 * exp (- 10)),
        - 10 - ln (exp 10 + 14 * exp (- 10)), - 10 - ln (exp 10 + 14 * exp (- 10)),
        - 10 - ln (exp 10 + 14 * exp (- 10)), - 10 - ln (exp 10 + 14 * exp (- 10))]"
  by (simp add: log_softmax_row_def peaked_logits_def)

lemma kl_peaked:
  "kl_term [peaked_logits] [tiny_probs] 2
     = Some ((1 / 10 * ln (1 / 10) - 1 / 10 * (10 - ln (exp 10 + 14 * exp (- 10)))) * 4)"
  by (simp add: kl_term_def soft_tiny log_soft_peaked kl_div_batchmean_def kl_pointwise_def)

lemma bce_peaked:
  "bce_with_logits_mean [peaked_logits] [one_hot]
     = Some ((- ln (sigmoid 20) - 14 * ln (1 - sigmoid (- 20))) / 15)"
  by (simp add: bce_with_logits_mean_def bce_pointwise_def peaked_logits_def one_hot_def)

lemma kd_peaked:
  "kd_loss [peaked_logits] [tiny_probs] [one_hot] 2 (7 / 10) (3 / 10)
     = Inr (Some (7 / 10 * ((1 / 10 * ln (1 / 10) - 1 / 10 * (10 - ln (exp 10 + 14 * exp (- 10)))) * 4)
                  + 3 / 10 * ((- ln (sigmoid 20) - 14 * ln (1 - sigmoid (- 20))) / 15)))"
  by (simp add: kd_loss_def kl_peaked bce_peaked)

lemma exp_minus_20: "exp (- 20 :: real) \<le> 1 / 21"
proof -
  have "(21::real) \<le> exp 20" using exp_ge_add_one_self [of "20::real"] by simp
  then have "1 / exp (20::real) \<le> 1 / 21" by (intro divide_left_mono) simp_all
  then show ?thesis by (simp add: exp_minus inverse_eq_divide)
qed

lemma ln_tenth: "ln (1 / 10 :: real) \<le> - 2"
proof -
  have "exp (2::real) = exp 1 * exp 1" by (simp add: exp_add [symmetric])
  also have "\<dots> \<le> 3 * 3"
    using exp_le by (intro mult_mono) simp_all
  also have "\<dots> \<le> 10" by simp
  finally have "exp (2::real) \<le> 10" .
  then have "2 \<le> ln (10::real)" by (simp add: ln_ge_iff)
  then show ?thesis by (simp add: ln_div)
qed

lemma log_sum_peaked: "ln (exp 10 + 14 * exp (- 10)) - 10 \<le> (2 / 3 :: real)"
proof -
  have pos: "0 < 1 + 14 * exp (- 20 :: real)" by (intro add_pos_pos) simp_all
  have "exp 10 + 14 * exp (- 10) = exp (10::real) * (1 + 14 * exp (- 20))"
    by (simp add: algebra_simps exp_add [symmetric])
  then have "ln (exp 10 + 14 * exp (- 10)) = ln (exp (10::real)) + ln (1 + 14 * exp (- 20 :: real))"
    using pos by (simp add: ln_mult)
  moreover have "ln (1 + 14 * exp (- 20 :: real)) \<le> 14 * exp (- 20)"
    by (intro ln_add_one_self_le_self) simp
  ultimately show ?thesis using exp_minus_20 by simp
qed

lemma mirror_arith:
  fixes e :: real
  assumes "0 < e"
  shows "1 - 1 / (1 + e) = 1 / (1 + 1 / e)"
proof -
  have "0 < 1 + e" using assms by linarith
  then show ?thesis using assms by (simp add: field_simps)
qed

lemma sigmoid_mirror: "1 - sigmoid (- x) = sigmoid x"
  using mirror_arith [of "exp x"] by (simp add: sigmoid_def exp_minus inverse_eq_divide)

lemma neg_ln_sigmoid_20: "- ln (sigmoid 20) \<le> 1 / 21"
proof -
  have "- ln (sigmoid 20) = ln (1 + exp (- 20 :: real))"
    by (simp add: sigmoid_def ln_div add_pos_pos)
  also have "\<dots> \<le> exp (- 20)" by (intro ln_add_one_self_le_self) simp
  finally show ?thesis using exp_minus_20 by simp
qed

lemma negative_arith:
  fixes a l s :: real
  assumes "a \<le> - 2" and "l - 10 \<le> 2 / 3" and "- s \<le> 1 / 21"
  shows "7 / 10 * ((1 / 10 * a - 1 / 10 * (10 - l)) * 4) + 3 / 10 * ((- s - 14 * s) / 15) < 0"
  using assms by argo

lemma peaked_value_negative:
  "7 / 10 * ((1 / 10 * ln (1 / 10) - 1 / 10 * (10 - ln (exp 10 + 14 * exp (- 10)))) * 4)
     + 3 / 10 * ((- ln (sigmoid 20) - 14 * ln (1 - sigmoid (- 20))) / 15) < (0::real)"
  unfolding sigmoid_mirror
  by (rule negative_arith [OF ln_tenth log_sum_peaked neg_ln_sigmoid_20])

section \<open>Properties of the distillation loss\<close>

text \<open>
  Claim C1. For a batch of \<open>b > 0\<close> examples over \<open>n > 0\<close> labels, teacher probabilities
  that are not negative and a temperature \<open>T > 0\<close>, \<^verbatim>\<open>kd_loss\<close> returns
  \<open>alpha_kl * T\<^sup>2 * KL + alpha_ce * BCE\<close>, where KL is the batch mean of the KL divergence
  between the sharpened teacher distribution (power \<open>1 / T\<close>, sum floored at \<open>10\<^sup>-\<^sup>9\<close>) and
  the softmax of the logits over \<open>T\<close>, and BCE is the mean binary cross-entropy of the
  logits against the supervision target.
\<close>

theorem kd_loss_formula:
  assumes "has_shape b n student_logits" and "has_shape b n teacher" and "has_shape b n target"
    and "0 < b" and "0 < n" and "0 < T" and "nonneg_rows teacher"
  shows "kd_loss student_logits teacher target T alpha_kl alpha_ce
           = Inr (Some (kd_loss_spec b n student_logits teacher target T alpha_kl alpha_ce))"
  using assms by (rule kd_loss_value)

lemma shape_peaked: "has_shape 1 15 [peaked_logits]"
  by (simp add: has_shape_def peaked_logits_def)

lemma shape_tiny: "has_shape 1 15 [tiny_probs]"
  by (simp add: has_shape_def tiny_probs_def)

lemma shape_one_hot: "has_shape 1 15 [one_hot]"
  by (simp add: has_shape_def one_hot_def)

lemma shape_zero_logits: "has_shape 1 15 [zero_logits]"
  by (simp add: has_shape_def zero_logits_def)

lemma nonneg_tiny: "nonneg_rows [tiny_probs]"
  by (simp add: nonneg_rows_def tiny_probs_def)

lemma nonneg_one_hot: "nonneg_rows [one_hot]"
  by (simp add: nonneg_rows_def one_hot_def)

text \<open>One example of the width of the label schema, default temperature and weights.\<close>

theorem kd_loss_formula_witness:
  "has_shape 1 15 [peaked_logits] \<and> has_shape 1 15 [tiny_probs] \<and> has_shape 1 15 [one_hot] \<and>
   nonneg_rows [tiny_probs] \<and>
   kd_loss [peaked_logits] [tiny_probs] [one_hot] 2 (7 / 10) (3 / 10)
     = Inr (Some (kd_loss_spec 1 15 [peaked_logits] [tiny_probs] [one_hot] 2 (7 / 10) (3 / 10)))"
  using kd_loss_formula [OF shape_peaked shape_tiny shape_one_hot _ _ _ nonneg_tiny,
      of 2 "7 / 10" "3 / 10"]
    shape_peaked shape_tiny shape_one_hot nonneg_tiny
  by simp

text \<open>
  Claim C4, amended. In exact arithmetic, for finite logits, teacher entries that are not
  negative and a temperature \<open>T > 0\<close>, \<^verbatim>\<open>kd_loss\<close> raises no error and returns a number
  (not NaN), whatever the targets and the weights, and also when the floor is active. The
  number is not negative provided that the weights are not negative, the targets lie in
  \<open>[0,1]\<close> and every teacher row is all zero or has powers that sum to at least \<open>10\<^sup>-\<^sup>9\<close>,
  so that the floor does not cut the row below a distribution.
\<close>

theorem kd_loss_nonneg:
  assumes "has_shape b n student_logits" and "has_shape b n teacher" and "has_shape b n target"
    and "0 < b" and "0 < n" and "0 < T" and "nonneg_rows teacher"
  shows "is_number (kd_loss student_logits teacher target T alpha_kl alpha_ce) \<and>
         (0 \<le> alpha_kl \<and> 0 \<le> alpha_ce \<and> unit_rows target \<and> list_all (floor_inactive T) teacher
            \<longrightarrow> 0 \<le> loss_value (kd_loss student_logits teacher target T alpha_kl alpha_ce))"
proof -
  have v: "kd_loss student_logits teacher target T alpha_kl alpha_ce
          = Inr (Some (kd_loss_spec b n student_logits teacher target T alpha_kl alpha_ce))"
    using assms by (intro kd_loss_value)
  have "0 \<le> kd_loss_spec b n student_logits teacher target T alpha_kl alpha_ce"
    if "0 \<le> alpha_kl" and "0 \<le> alpha_ce" and "unit_rows target"
      and "list_all (floor_inactive T) teacher"
    using assms that by (intro kd_loss_spec_nonneg)
  then show ?thesis unfolding v by (simp add: is_number_def loss_value_def)
qed

text \<open>
  A batch of a one-hot teacher row and an all-zero teacher row: a number that is not
  negative. A batch of the tiny teacher row, on which the floor is active: a number.
\<close>

theorem kd_loss_nonneg_witness:
  "has_shape 2 15 [peaked_logits, zero_logits] \<and> has_shape 2 15 [one_hot, zero_logits] \<and>
   nonneg_rows [one_hot, zero_logits] \<and> unit_rows [one_hot, zero_logits] \<and>
   list_all (floor_inactive 2) [one_hot, zero_logits] \<and>
   is_number (kd_loss [peaked_logits, zero_logits] [one_hot, zero_logits] [one_hot, zero_logits]
                2 (7 / 10) (3 / 10)) \<and>
   0 \<le> loss_value (kd_loss [peaked_logits, zero_logits] [one_hot, zero_logits]
                      [one_hot, zero_logits] 2 (7 / 10) (3 / 10)) \<and>
   has_shape 1 15 [peaked_logits] \<and> has_shape 1 15 [tiny_probs] \<and> has_shape 1 15 [one_hot] \<and>
   nonneg_rows [tiny_probs] \<and>
   is_number (kd_loss [peaked_logits] [tiny_probs] [one_hot] 2 (7 / 10) (3 / 10))"
proof -
  have a: "has_shape 2 15 [peaked_logits, zero_logits]"
    by (simp add: has_shape_def peaked_logits_def zero_logits_def)
  have b: "has_shape 2 15 [one_hot, zero_logits]"
    by (simp add: has_shape_def one_hot_def zero_logits_def)
  have c: "nonneg_rows [one_hot, zero_logits]"
    by (simp add: nonneg_rows_def one_hot_def zero_logits_def)
  have d: "unit_rows [one_hot, zero_logits]"
    by (simp add: unit_rows_def one_hot_def zero_logits_def)
  have e: "list_all (floor_inactive 2) [one_hot, zero_logits]"
    by (simp add: floor_inactive_def one_hot_def zero_logits_def)
  have two: "(0::nat) < 2" and one: "(0::nat) < 1" and n: "(0::nat) < 15" and t: "(0::real) < 2"
    and w: "(0::real) \<le> 7 / 10" "(0::real) \<le> 3 / 10"
    by simp_all
  note inactive = kd_loss_nonneg [OF a b b two n t c, of "7 / 10" "3 / 10"]
  note active = kd_loss_nonneg [OF shape_peaked shape_tiny shape_one_hot one n t nonneg_tiny,
      of "7 / 10" "3 / 10"]
  from inactive w d e
  have "is_number (kd_loss [peaked_logits, zero_logits] [one_hot, zero_logits]
                     [one_hot, zero_logits] 2 (7 / 10) (3 / 10)) \<and>
        0 \<le> loss_value (kd_loss [peaked_logits, zero_logits] [one_hot, zero_logits]
                           [one_hot, zero_logits] 2 (7 / 10) (3 / 10))"
    by blast
  moreover from active
  have "is_number (kd_loss [peaked_logits] [tiny_probs] [one_hot] 2 (7 / 10) (3 / 10))"
    by blast
  ultimately show ?thesis
    using a b c d e shape_peaked shape_tiny shape_one_hot nonneg_tiny by blast
qed

text \<open>
  Claim C4 as stated fails when the floor is active on a row that is not zero: the teacher
  row \<open>(10\<^sup>-\<^sup>2\<^sup>0, 0, \<dots>, 0)\<close> at temperature 2 is sharpened to \<open>(0.1, 0, \<dots>, 0)\<close>, which sums
  to less than 1, and with logits that favour the first label the loss is negative at the
  default weights.
\<close>

theorem kd_loss_negative_counterexample:
  "is_number (kd_loss [peaked_logits] [tiny_probs] [one_hot] 2 (7 / 10) (3 / 10)) \<and>
   loss_value (kd_loss [peaked_logits] [tiny_probs] [one_hot] 2 (7 / 10) (3 / 10)) < 0"
  using peaked_value_negative by (simp add: kd_peaked is_number_def loss_value_def)

lemma all_zero_scaled:
  "list_all (\<lambda>v. v = 0) (map (\<lambda>v. c * v) r) \<longleftrightarrow> c = 0 \<or> list_all (\<lambda>v. v = (0::real)) r"
  by (induction r) auto

lemma teacher_soft_spec_scaled:
  assumes "0 < c" and "0 < T" and "list_all (\<lambda>v. 0 \<le> v) r" and "j < length r"
    and "floor_inactive T r" and "floor_inactive T (map (\<lambda>v. c * v) r)"
  shows "teacher_soft_spec T (map (\<lambda>v. c * v) r) j = teacher_soft_spec T r j"
proof (cases "list_all (\<lambda>v. v = 0) r")
  case True
  then have "list_all (\<lambda>v. v = 0) (map (\<lambda>v. c * v) r)" by (simp add: all_zero_scaled)
  then show ?thesis using True assms(4) by (simp add: teacher_soft_spec_zero)
next
  case False
  let ?a = "1 / T"
  let ?S = "\<Sum>k<length r. (r ! k) powr ?a"
  have nz: "\<not> list_all (\<lambda>v. v = 0) (map (\<lambda>v. c * v) r)"
    using False assms(1) by (simp add: all_zero_scaled)
  have S: "1 / 10 ^ 9 \<le> ?S"
    using False assms(5) by (simp add: floor_inactive_def sum_list_map_nth)
  have S': "1 / 10 ^ 9 \<le> (\<Sum>k<length r. (c * r ! k) powr ?a)"
    using nz assms(6) by (simp add: floor_inactive_def sum_list_map_nth o_def)
  have pw: "\<And>k. k < length r \<Longrightarrow> (c * r ! k) powr ?a = c powr ?a * (r ! k) powr ?a"
    using assms(1,3) by (simp add: powr_mult list_all_length)
  have sum_eq: "(\<Sum>k<length r. (c * r ! k) powr ?a) = c powr ?a * ?S"
    using pw by (simp add: sum_distrib_left)
  have cpos: "0 < c powr ?a" using assms(1) by simp
  have Spos: "0 < ?S" using S by (rule less_le_trans [rotated]) simp
  have "teacher_soft_spec T (map (\<lambda>v. c * v) r) j
          = (c * r ! j) powr ?a / (\<Sum>k<length r. (c * r ! k) powr ?a)"
    using S' assms(4) by (simp add: teacher_soft_spec_def max_def)
  also have "\<dots> = (c powr ?a * (r ! j) powr ?a) / (c powr ?a * ?S)"
    using pw [OF assms(4)] sum_eq by simp
  also have "\<dots> = (r ! j) powr ?a / ?S"
    using cpos by simp
  also have "\<dots> = teacher_soft_spec T r j"
    using S by (simp add: teacher_soft_spec_def max_def)
  finally show ?thesis .
qed

lemma has_shape_scaled: "has_shape b n p \<Longrightarrow> has_shape b n (map (map (\<lambda>v. c * v)) p)"
  by (simp add: has_shape_def list_all_iff)

lemma nonneg_rows_scaled: "0 < c \<Longrightarrow> nonneg_rows p \<Longrightarrow> nonneg_rows (map (map (\<lambda>v. c * v)) p)"
  by (simp add: nonneg_rows_def list_all_iff)

text \<open>
  Claim C5, amended. For teacher entries that are not negative, \<open>T > 0\<close> and \<open>c > 0\<close>,
  replacing every teacher row \<open>p\<close> by \<open>c * p\<close> leaves the KL term unchanged, provided that
  the floor is inactive on every row both before and after the rescaling.
\<close>

theorem kl_rescaling:
  assumes "has_shape b n student_logits" and "has_shape b n teacher"
    and "0 < b" and "0 < T" and "0 < c" and "nonneg_rows teacher"
    and "list_all (floor_inactive T) teacher"
    and "list_all (floor_inactive T) (map (map (\<lambda>v. c * v)) teacher)"
  shows "kl_term student_logits (map (map (\<lambda>v. c * v)) teacher) T = kl_term student_logits teacher T"
proof -
  have len: "length teacher = b" using assms by (simp add: has_shape_length)
  have soft: "teacher_soft_spec T (map (map (\<lambda>v. c * v)) teacher ! i) j
                = teacher_soft_spec T (teacher ! i) j" if "i < b" and "j < n" for i j
  proof -
    have "list_all (\<lambda>v. 0 \<le> v) (teacher ! i)"
      using assms(6) that len by (simp add: nonneg_rows_def list_all_length)
    moreover have "j < length (teacher ! i)" using assms(2) that by (simp add: has_shape_row)
    moreover have "floor_inactive T (teacher ! i)"
      using assms(7) that len by (simp add: list_all_length)
    moreover have "floor_inactive T (map (\<lambda>v. c * v) (teacher ! i))"
      using assms(8) that len by (simp add: list_all_length)
    ultimately show ?thesis
      using assms(4,5) that len by (simp add: teacher_soft_spec_scaled)
  qed
  have "kl_batchmean_spec b n (\<lambda>i. log_softmax_spec (map (\<lambda>v. v / T) (student_logits ! i)))
          (\<lambda>i. teacher_soft_spec T (map (map (\<lambda>v. c * v)) teacher ! i))
        = kl_batchmean_spec b n (\<lambda>i. log_softmax_spec (map (\<lambda>v. v / T) (student_logits ! i)))
          (\<lambda>i. teacher_soft_spec T (teacher ! i))"
    unfolding kl_batchmean_spec_def
    by (intro arg_cong2 [where f = "(/)"] sum.cong refl) (simp add: soft)
  then show ?thesis
    using assms
    by (simp add: kl_term_value [where b = b and n = n] has_shape_scaled nonneg_rows_scaled)
qed

text \<open>Doubling a one-hot teacher row.\<close>

theorem kl_rescaling_witness:
  "has_shape 1 15 [zero_logits] \<and> has_shape 1 15 [one_hot] \<and> nonneg_rows [one_hot] \<and>
   list_all (floor_inactive 1) [one_hot] \<and>
   list_all (floor_inactive 1) (map (map (\<lambda>v. 2 * v)) [one_hot]) \<and>
   kl_term [zero_logits] (map (map (\<lambda>v. 2 * v)) [one_hot]) 1 = kl_term [zero_logits] [one_hot] 1"
proof -
  have d: "list_all (floor_inactive 1) [one_hot]"
    by (simp add: floor_inactive_def one_hot_def)
  have e: "list_all (floor_inactive 1) (map (map (\<lambda>v. 2 * v)) [one_hot])"
    by (simp add: floor_inactive_def one_hot_def)
  show ?thesis
    using kl_rescaling [OF shape_zero_logits shape_one_hot _ _ _ nonneg_one_hot d e]
      shape_zero_logits shape_one_hot nonneg_one_hot d e
    by simp
qed

text \<open>
  Claim C5 as stated fails when the rescaling crosses the floor: at temperature 2 the row
  \<open>(10\<^sup>-\<^sup>2\<^sup>0, 0, \<dots>, 0)\<close> is sharpened to \<open>(0.1, 0, \<dots>, 0)\<close>, the row scaled by 100 to
  \<open>(1, 0, \<dots>, 0)\<close>, and the two KL terms differ.
\<close>

theorem kl_rescaling_counterexample:
  "kl_term [zero_logits] [tiny_probs] 2 = Some ((1 / 10 * ln (1 / 10) + 1 / 10 * ln 15) * 4) \<and>
   kl_term [zero_logits] [map (\<lambda>v. 100 * v) tiny_probs] 2 = Some (ln 15 * 4) \<and>
   (1 / 10 * ln (1 / 10) + 1 / 10 * ln 15) * 4 < ln 15 * (4::real)"
  using kl_tiny kl_scaled kl_values_differ by simp

lemma has_shape_zeros: "has_shape b n (replicate b (replicate n 0))"
  by (simp add: has_shape_def list_all_iff)

lemma nonneg_rows_zeros: "nonneg_rows (replicate b (replicate n 0))"
  by (simp add: nonneg_rows_def list_all_iff)

lemma kl_zero_teacher:
  assumes "has_shape b n x" and "0 < b" and "0 < T"
  shows "kl_term x (replicate b (replicate n 0)) T = Some 0"
proof -
  have "kl_batchmean_spec b n (\<lambda>i. log_softmax_spec (map (\<lambda>v. v / T) (x ! i)))
          (\<lambda>i. teacher_soft_spec T (replicate b (replicate n 0) ! i)) = 0"
    unfolding kl_batchmean_spec_def by (simp add: teacher_soft_spec_def)
  then show ?thesis
    using assms by (simp add: kl_term_value [where b = b and n = n] has_shape_zeros nonneg_rows_zeros)
qed

text \<open>
  Claim C10, amended. In exact arithmetic and for a temperature \<open>T > 0\<close>: for a teacher row
  that is all zero the powers are all zero, the denominator of line 120 is the floor
  \<open>10\<^sup>-\<^sup>9\<close>, the sharpened row is all zero and every pointwise term of the KL divergence of
  the row is 0; for a batch of such rows the KL term is exactly 0, and the loss is
  \<open>alpha_ce\<close> times the binary cross-entropy term.
\<close>

theorem zero_teacher:
  assumes "has_shape b n student_logits" and "has_shape b n target"
    and "0 < b" and "0 < n" and "0 < T"
  shows "those (map (\<lambda>p. torch_pow p (1 / T)) (replicate n 0)) = Some (replicate n 0) \<and>
         max (sum_list (replicate n (0::real))) (1 / 10 ^ 9) = 1 / 10 ^ 9 \<and>
         teacher_soft_row (1 / T) (replicate n 0) = Some (replicate n 0) \<and>
         list_all (\<lambda>v. v = Some 0) (map2 kl_pointwise row (replicate n 0)) \<and>
         kl_term student_logits (replicate b (replicate n 0)) T = Some 0 \<and>
         is_number (kd_loss student_logits (replicate b (replicate n 0)) target T alpha_kl alpha_ce) \<and>
         kd_loss student_logits (replicate b (replicate n 0)) target T alpha_kl alpha_ce
           = Inr (map_option (\<lambda>ce. alpha_ce * ce) (bce_with_logits_mean student_logits target))"
proof -
  have pows: "those (map (\<lambda>p. torch_pow p (1 / T)) (replicate n 0)) = Some (replicate n 0)"
    using assms(5) by (simp add: torch_pow_def those_Some_list [of "replicate n 0", simplified])
  have den: "max (sum_list (replicate n (0::real))) (1 / 10 ^ 9) = 1 / 10 ^ 9"
    by (simp add: sum_list_replicate)
  have "teacher_soft_row (1 / T) (replicate n 0) = Some (soft_row (1 / T) (replicate n 0))"
    using assms by (intro teacher_soft_row_nonneg) (simp_all add: list_all_iff)
  then have soft: "teacher_soft_row (1 / T) (replicate n 0) = Some (replicate n 0)"
    by (simp add: soft_row_def)
  have kl: "kl_term student_logits (replicate b (replicate n 0)) T = Some 0"
    using assms by (intro kl_zero_teacher)
  have ce: "bce_with_logits_mean student_logits target = Some (bce_mean_spec b n student_logits target)"
    using assms by (intro bce_with_logits_mean_value)
  have "t = 0" if "(l, t) \<in> set (zip row (replicate n (0::real)))" for l t
    using set_zip_rightD [OF that] by simp
  then have pw: "list_all (\<lambda>v. v = Some 0) (map2 kl_pointwise row (replicate n 0))"
    by (auto simp: list_all_iff kl_pointwise_def)
  show ?thesis using assms(5) pows den soft kl ce pw by (simp add: kd_loss_def is_number_def)
qed

text \<open>One all-zero teacher row at the default temperature and weights.\<close>

theorem zero_teacher_witness:
  "has_shape 1 15 [peaked_logits] \<and> has_shape 1 15 [one_hot] \<and>
   those (map (\<lambda>p. torch_pow p (1 / 2)) (replicate 15 0)) = Some (replicate 15 0) \<and>
   max (sum_list (replicate 15 (0::real))) (1 / 10 ^ 9) = 1 / 10 ^ 9 \<and>
   teacher_soft_row (1 / 2) (replicate 15 0) = Some (replicate 15 0) \<and>
   list_all (\<lambda>v. v = Some 0) (map2 kl_pointwise peaked_logits (replicate 15 0)) \<and>
   kl_term [peaked_logits] (replicate 1 (replicate 15 0)) 2 = Some 0 \<and>
   is_number (kd_loss [peaked_logits] (replicate 1 (replicate 15 0)) [one_hot] 2 (7 / 10) (3 / 10)) \<and>
   kd_loss [peaked_logits] (replicate 1 (replicate 15 0)) [one_hot] 2 (7 / 10) (3 / 10)
     = Inr (map_option (\<lambda>ce. 3 / 10 * ce) (bce_with_logits_mean [peaked_logits] [one_hot]))"
proof -
  have b: "(0::nat) < 1" and n: "(0::nat) < 15" and t: "(0::real) < 2" by simp_all
  show ?thesis
    using zero_teacher [OF shape_peaked shape_one_hot b n t, of peaked_logits "7 / 10" "3 / 10"]
      shape_peaked shape_one_hot
    by blast
qed

text \<open>
  Claim C10 as stated, for every temperature, fails at a negative one, which the command
  line accepts: at \<open>T = -2\<close> zero to the power \<open>-1/2\<close> is infinite, the sharpened row of an
  all-zero teacher row is not a row of numbers and the loss is NaN.
\<close>

theorem zero_teacher_counterexample:
  "teacher_soft_row (1 / (- 2)) (replicate 15 0) = None \<and>
   kd_loss [zero_logits] [replicate 15 0] [zero_logits] (- 2) (7 / 10) (3 / 10) = Inr None"
proof -
  have "those (replicate n None) = (None :: real list option)" if "0 < n" for n :: nat
    using that by (cases n) simp_all
  then have "those (replicate 15 None) = (None :: real list option)" by simp
  then show ?thesis
    by (simp add: kd_loss_def kl_term_def teacher_soft_row_def torch_pow_def)
qed

section \<open>Properties of the evaluator\<close>

lemma hard_labels_rows:
  assumes "list_all record_ok data"
  shows "hard_labels_of thr data =
           Inr (map (\<lambda>sample. map (\<lambda>label. if human_marks sample label then 1
                                            else if thr \<le> teacher_score sample label then 1 else 0)
                                  LABEL_KEYS) data)"
  unfolding hard_labels_of_def using assms
  by (intro map_err_Inr) (simp add: truth_row_ok list_all_iff)

lemma count_tp_le_pos: "count_tp ts ps \<le> count_pos ts"
  unfolding count_tp_def count_pos_def
  by (induction ts ps rule: list_induct2') auto

lemma count_tp_same: "count_tp ts ts = count_pos ts"
  unfolding count_tp_def count_pos_def by (induction ts) auto

lemma zero_div_zero [simp]: "zero_div 0 b = 0"
  by (simp add: zero_div_def)

lemma zero_div_same: "b \<noteq> 0 \<Longrightarrow> zero_div b b = 1"
  by (simp add: zero_div_def)

lemma report_no_positives:
  assumes "count_pos ts = 0"
  shows "report_of ts ps = \<lparr>precision = 0, recall = 0, f1_score = 0, support = 0\<rparr>"
proof -
  have "count_tp ts ps = 0" using count_tp_le_pos [of ts ps] assms by simp
  then show ?thesis
    using assms by (simp add: report_of_def label_precision_def label_recall_def label_f1_def)
qed

lemma report_identical:
  assumes "0 < count_pos ts"
  shows "report_of ts ts = \<lparr>precision = 1, recall = 1, f1_score = 1, support = count_pos ts\<rparr>"
  using assms
  by (simp add: report_of_def label_precision_def label_recall_def label_f1_def count_tp_same
      zero_div_def)

lemma per_label_report_nth:
  assumes "j < length LABEL_KEYS"
  shows "per_label_report y_true y_pred ! j
           = (LABEL_KEYS ! j, report_of (column j y_true) (column j y_pred))"
  using assms by (simp add: per_label_report_def)

lemma evaluate_model_ok:
  assumes "list_all record_ok data"
  shows "\<exists>m truth. evaluate_model logits data thr = Inr m \<and> hard_labels_of thr data = Inr truth \<and>
                   per_label m = per_label_report truth (hard_preds_of thr logits)"
proof -
  obtain truth where t: "hard_labels_of thr data = Inr truth"
    using hard_labels_rows [OF assms] by simp
  then show ?thesis by (simp add: evaluate_model_def Let_def)
qed

lemma evaluate_model_result:
  assumes "evaluate_model logits data thr = Inr m"
  shows "\<exists>truth. hard_labels_of thr data = Inr truth \<and>
                 per_label m = per_label_report truth (hard_preds_of thr logits)"
  using assms
  by (auto simp: evaluate_model_def Let_def bind_err_def split: sum.splits)

text \<open>
  Claim C8. Whenever the evaluation returns its report: a label without a positive example
  in the ground truth has precision, recall and F1 equal to 0; and when the hard
  predictions are the ground truth, a label with at least one positive example has F1
  equal to 1. The evaluation returns its report, without an error, on every dataset of at
  least one record in the input format, with one row of logits per record.
\<close>

theorem evaluator_metrics:
  assumes "j < length LABEL_KEYS"
  shows "(data \<noteq> [] \<and> list_all record_ok data \<and> has_shape (length data) (length LABEL_KEYS) logits
            \<longrightarrow> (\<exists>m. evaluate_model logits data thr = Inr m)) \<and>
         (\<forall>m. evaluate_model logits data thr = Inr m \<longrightarrow>
            (\<exists>truth. hard_labels_of thr data = Inr truth \<and>
               fst (per_label m ! j) = LABEL_KEYS ! j \<and>
               (count_pos (column j truth) = 0 \<longrightarrow>
                  precision (snd (per_label m ! j)) = 0 \<and> recall (snd (per_label m ! j)) = 0 \<and>
                  f1_score (snd (per_label m ! j)) = 0) \<and>
               (hard_preds_of thr logits = truth \<and> 0 < count_pos (column j truth) \<longrightarrow>
                  f1_score (snd (per_label m ! j)) = 1)))"
proof (intro conjI allI impI)
  assume "data \<noteq> [] \<and> list_all record_ok data \<and> has_shape (length data) (length LABEL_KEYS) logits"
  then show "\<exists>m. evaluate_model logits data thr = Inr m"
    using evaluate_model_ok [of data logits thr] by blast
next
  fix m assume "evaluate_model logits data thr = Inr m"
  then obtain truth where t: "hard_labels_of thr data = Inr truth"
    and pl: "per_label m = per_label_report truth (hard_preds_of thr logits)"
    using evaluate_model_result by blast
  have entry: "per_label m ! j
                 = (LABEL_KEYS ! j, report_of (column j truth) (column j (hard_preds_of thr logits)))"
    unfolding pl using assms by (rule per_label_report_nth)
  have zero: "count_pos (column j truth) = 0 \<longrightarrow>
              precision (snd (per_label m ! j)) = 0 \<and> recall (snd (per_label m ! j)) = 0 \<and>
              f1_score (snd (per_label m ! j)) = 0"
    unfolding entry by (simp add: report_no_positives)
  have same: "hard_preds_of thr logits = truth \<and> 0 < count_pos (column j truth) \<longrightarrow>
              f1_score (snd (per_label m ! j)) = 1"
    unfolding entry by (auto simp: report_identical)
  have name: "fst (per_label m ! j) = LABEL_KEYS ! j" unfolding entry by simp
  from zero same show "\<exists>truth. hard_labels_of thr data = Inr truth \<and>
               fst (per_label m ! j) = LABEL_KEYS ! j \<and>
               (count_pos (column j truth) = 0 \<longrightarrow>
                  precision (snd (per_label m ! j)) = 0 \<and> recall (snd (per_label m ! j)) = 0 \<and>
                  f1_score (snd (per_label m ! j)) = 0) \<and>
               (hard_preds_of thr logits = truth \<and> 0 < count_pos (column j truth) \<longrightarrow>
                  f1_score (snd (per_label m ! j)) = 1)"
    unfolding t by (intro exI [of _ truth] conjI refl name)
qed

lemma sigmoid_half: "1 \<le> sigmoid x * 2 \<longleftrightarrow> 0 \<le> x"
proof -
  have p: "0 < 1 + exp (- x)" by (intro add_pos_pos) simp_all
  have "1 \<le> 1 / (1 + exp (- x)) * 2 \<longleftrightarrow> 1 + exp (- x) \<le> 2"
    using p by (simp add: field_simps)
  also have "\<dots> \<longleftrightarrow> 0 \<le> x" by simp
  finally show ?thesis by (simp add: sigmoid_def)
qed

lemma preds_agreeing:
  "hard_preds_of (1 / 2) agreeing_logits =
     [[1, 0, 0, 0, 0, 0, 0, 0, 0, 0, 0, 0, 0, 0, 1],
      [0, 0, 0, 0, 0, 0, 0, 0, 0, 0, 0, 0, 0, 0, 0]]"
  by (simp add: hard_preds_of_def agreeing_logits_def sigmoid_half)

lemma truth_scenarios:
  "hard_labels_of (1 / 2) [scenario, JObj []] =
     Inr [[1, 0, 0, 0, 0, 0, 0, 0, 0, 0, 0, 0, 0, 0, 1],
          [0, 0, 0, 0, 0, 0, 0, 0, 0, 0, 0, 0, 0, 0, 0]]"
proof -
  have ok: "list_all record_ok [scenario, JObj []]"
    by (simp add: record_ok_scenario opt_field_def)
  show ?thesis
    unfolding hard_labels_rows [OF ok]
    by (simp add: human_marks_def teacher_score_def scenario_def LABEL_KEYS_def)
qed

text \<open>
  The scenario and the empty record, with agreeing predictions: the first label has a
  positive example, the second has none.
\<close>

theorem evaluator_metrics_witness:
  "list_all record_ok [scenario, JObj []] \<and> has_shape 2 15 agreeing_logits \<and>
   (\<exists>m. evaluate_model agreeing_logits [scenario, JObj []] (1 / 2) = Inr m \<and>
        f1_score (snd (per_label m ! 0)) = 1 \<and>
        precision (snd (per_label m ! 1)) = 0 \<and> recall (snd (per_label m ! 1)) = 0 \<and>
        f1_score (snd (per_label m ! 1)) = 0)"
proof -
  let ?truth = "[[1, 0, 0, 0, 0, 0, 0, 0, 0, 0, 0, 0, 0, 0, 1],
                 [0, 0, 0, 0, 0, 0, 0, 0, 0, 0, 0, 0, 0, 0, 0::int]]"
  have ok: "list_all record_ok [scenario, JObj []]"
    by (simp add: record_ok_scenario opt_field_def)
  have j0: "(0::nat) < length LABEL_KEYS" and j1: "(1::nat) < length LABEL_KEYS"
    by (simp_all add: length_LABEL_KEYS)
  have c0: "0 < count_pos (column 0 ?truth)" by (simp add: count_pos_def column_def)
  have c1: "count_pos (column 1 ?truth) = 0" by (simp add: count_pos_def column_def)
  note first = evaluator_metrics [OF j0, of "[scenario, JObj []]" agreeing_logits "1 / 2"]
  note second = evaluator_metrics [OF j1, of "[scenario, JObj []]" agreeing_logits "1 / 2"]
  have sh: "has_shape 2 15 agreeing_logits" by (simp add: has_shape_def agreeing_logits_def)
  have sh': "has_shape (length [scenario, JObj []]) (length LABEL_KEYS) agreeing_logits"
    by (simp add: length_LABEL_KEYS has_shape_def agreeing_logits_def)
  have ne: "[scenario, JObj []] \<noteq> []" by simp
  from first ok sh' ne obtain m
    where m: "evaluate_model agreeing_logits [scenario, JObj []] (1 / 2) = Inr m"
    by blast
  from first m have f: "f1_score (snd (per_label m ! 0)) = 1"
    using truth_scenarios preds_agreeing c0 by auto
  from second m
  have "precision (snd (per_label m ! 1)) = 0 \<and> recall (snd (per_label m ! 1)) = 0 \<and>
        f1_score (snd (per_label m ! 1)) = 0"
    using truth_scenarios c1 by auto
  with ok sh m f show ?thesis by blast
qed

section \<open>The entropy of the sharpened teacher row\<close>

lemma gibbs_q_nonneg: "0 < pow_sum \<beta> p \<Longrightarrow> 0 \<le> gibbs_q \<beta> p j"
  by (simp add: gibbs_q_def)

lemma gibbs_q_pos_iff: "0 < pow_sum \<beta> p \<Longrightarrow> 0 < gibbs_q \<beta> p j \<longleftrightarrow> p ! j \<noteq> 0"
  by (simp add: gibbs_q_def zero_less_divide_iff)

lemma gibbs_q_sum:
  assumes "0 < pow_sum \<beta> p"
  shows "(\<Sum>j<length p. gibbs_q \<beta> p j) = 1"
proof -
  have "(\<Sum>j<length p. gibbs_q \<beta> p j) = (\<Sum>j<length p. (p ! j) powr \<beta>) / pow_sum \<beta> p"
    by (simp add: gibbs_q_def sum_divide_distrib)
  also have "\<dots> = 1" using assms by (simp add: pow_sum_def)
  finally show ?thesis .
qed

lemma ln_gibbs_q:
  assumes "0 < p ! j" and "0 < pow_sum \<beta> p"
  shows "ln (gibbs_q \<beta> p j) = \<beta> * ln (p ! j) - ln (pow_sum \<beta> p)"
proof -
  have "0 < (p ! j) powr \<beta>" using assms(1) by simp
  then have "ln ((p ! j) powr \<beta> / pow_sum \<beta> p) = ln ((p ! j) powr \<beta>) - ln (pow_sum \<beta> p)"
    using assms(2) by (simp add: ln_div)
  then show ?thesis by (simp add: gibbs_q_def)
qed

lemma gibbs_q_zero: "p ! j = 0 \<Longrightarrow> gibbs_q \<beta> p j = 0"
  by (simp add: gibbs_q_def)

lemma entropy_form:
  assumes "list_all (\<lambda>v. 0 \<le> v) p" and "0 < pow_sum \<beta> p"
  shows "(\<Sum>j<length p. gibbs_q \<beta> p j * ln (gibbs_q \<beta> p j))
           = \<beta> * mean_log \<beta> p - ln (pow_sum \<beta> p)"
proof -
  have tm: "gibbs_q \<beta> p j * ln (gibbs_q \<beta> p j)
                = \<beta> * (gibbs_q \<beta> p j * ln (p ! j)) - ln (pow_sum \<beta> p) * gibbs_q \<beta> p j"
    if "j < length p" for j
  proof (cases "p ! j = 0")
    case True
    then show ?thesis by (simp add: gibbs_q_zero)
  next
    case False
    then have "0 < p ! j" using assms(1) that by (simp add: list_all_length less_le)
    then show ?thesis using assms(2) by (simp add: ln_gibbs_q algebra_simps)
  qed
  have "(\<Sum>j<length p. gibbs_q \<beta> p j * ln (gibbs_q \<beta> p j))
          = (\<Sum>j<length p. \<beta> * (gibbs_q \<beta> p j * ln (p ! j)) - ln (pow_sum \<beta> p) * gibbs_q \<beta> p j)"
    by (intro sum.cong refl) (simp add: tm)
  also have "\<dots> = \<beta> * mean_log \<beta> p - ln (pow_sum \<beta> p) * (\<Sum>j<length p. gibbs_q \<beta> p j)"
    by (simp add: sum_subtractf sum_distrib_left mean_log_def)
  finally show ?thesis using gibbs_q_sum [OF assms(2)] by simp
qed

lemma cross_form:
  assumes "list_all (\<lambda>v. 0 \<le> v) p" and "0 < pow_sum \<beta> p" and "0 < pow_sum \<gamma> p"
  shows "(\<Sum>j<length p. gibbs_q \<beta> p j * (ln (gibbs_q \<beta> p j) - ln (gibbs_q \<gamma> p j)))
           = (\<beta> - \<gamma>) * mean_log \<beta> p - ln (pow_sum \<beta> p) + ln (pow_sum \<gamma> p)"
proof -
  have tm: "gibbs_q \<beta> p j * (ln (gibbs_q \<beta> p j) - ln (gibbs_q \<gamma> p j))
                = (\<beta> - \<gamma>) * (gibbs_q \<beta> p j * ln (p ! j))
                  - (ln (pow_sum \<beta> p) - ln (pow_sum \<gamma> p)) * gibbs_q \<beta> p j"
    if "j < length p" for j
  proof (cases "p ! j = 0")
    case True
    then show ?thesis by (simp add: gibbs_q_zero)
  next
    case False
    then have "0 < p ! j" using assms(1) that by (simp add: list_all_length less_le)
    then show ?thesis using assms(2,3) by (simp add: ln_gibbs_q algebra_simps)
  qed
  have "(\<Sum>j<length p. gibbs_q \<beta> p j * (ln (gibbs_q \<beta> p j) - ln (gibbs_q \<gamma> p j)))
          = (\<Sum>j<length p. (\<beta> - \<gamma>) * (gibbs_q \<beta> p j * ln (p ! j))
                             - (ln (pow_sum \<beta> p) - ln (pow_sum \<gamma> p)) * gibbs_q \<beta> p j)"
    by (intro sum.cong refl) (simp add: tm)
  also have "\<dots> = (\<beta> - \<gamma>) * mean_log \<beta> p
                    - (ln (pow_sum \<beta> p) - ln (pow_sum \<gamma> p)) * (\<Sum>j<length p. gibbs_q \<beta> p j)"
    by (simp add: sum_subtractf sum_distrib_left mean_log_def)
  finally show ?thesis using gibbs_q_sum [OF assms(2)] by simp
qed

lemma gibbs_q_differ:
  assumes "0 < p ! j" and "0 < p ! k" and "p ! j \<noteq> p ! k" and "\<beta> \<noteq> \<gamma>"
    and "0 < pow_sum \<beta> p" and "0 < pow_sum \<gamma> p"
  shows "gibbs_q \<beta> p j \<noteq> gibbs_q \<gamma> p j \<or> gibbs_q \<beta> p k \<noteq> gibbs_q \<gamma> p k"
proof (rule ccontr)
  assume "\<not> ?thesis"
  then have ej: "gibbs_q \<beta> p j = gibbs_q \<gamma> p j" and ek: "gibbs_q \<beta> p k = gibbs_q \<gamma> p k"
    by simp_all
  let ?r = "p ! j / p ! k"
  have r: "0 < ?r" "?r \<noteq> 1" using assms(1-3) by simp_all
  have kpos: "0 < (p ! k) powr \<beta>" "0 < (p ! k) powr \<gamma>" using assms(2) by simp_all
  have "gibbs_q \<beta> p j / gibbs_q \<beta> p k = (p ! j) powr \<beta> / (p ! k) powr \<beta>"
    using assms(5) by (simp add: gibbs_q_def)
  moreover have "gibbs_q \<gamma> p j / gibbs_q \<gamma> p k = (p ! j) powr \<gamma> / (p ! k) powr \<gamma>"
    using assms(6) by (simp add: gibbs_q_def)
  ultimately have "(p ! j) powr \<beta> / (p ! k) powr \<beta> = (p ! j) powr \<gamma> / (p ! k) powr \<gamma>"
    using ej ek by simp
  then have "?r powr \<beta> = ?r powr \<gamma>" by (simp add: powr_divide)
  then have "\<beta> = \<gamma>" using r by (simp add: powr_inj)
  then show False using assms(4) by simp
qed

lemma mean_log_order:
  assumes "list_all (\<lambda>v. 0 \<le> v) p" and "j < length p" and "k < length p"
    and "0 < p ! j" and "0 < p ! k" and "p ! j \<noteq> p ! k" and "\<gamma> < \<beta>"
    and "0 < pow_sum \<beta> p" and "0 < pow_sum \<gamma> p"
  shows "0 < (\<beta> - \<gamma>) * mean_log \<beta> p - ln (pow_sum \<beta> p) + ln (pow_sum \<gamma> p)"
    and "0 \<le> (\<gamma> - \<beta>) * mean_log \<gamma> p - ln (pow_sum \<gamma> p) + ln (pow_sum \<beta> p)"
proof -
  have pos: "0 < gibbs_q \<beta> p i \<longleftrightarrow> 0 < gibbs_q \<gamma> p i" for i
    using assms(8,9) by (simp add: gibbs_q_pos_iff)
  have sums: "(\<Sum>i<length p. gibbs_q \<gamma> p i) = (\<Sum>i<length p. gibbs_q \<beta> p i)"
    using assms(8,9) by (simp add: gibbs_q_sum)
  obtain i where i: "i < length p" "0 < p ! i" "gibbs_q \<beta> p i \<noteq> gibbs_q \<gamma> p i"
    using gibbs_q_differ [of p j k \<beta> \<gamma>] assms by auto
  have "0 < (\<Sum>i<length p. gibbs_q \<beta> p i * (ln (gibbs_q \<beta> p i) - ln (gibbs_q \<gamma> p i)))"
  proof (rule gibbs_strict [where k = i])
    show "\<And>j. j < length p \<Longrightarrow> 0 \<le> gibbs_q \<beta> p j" using assms(8) by (simp add: gibbs_q_nonneg)
    show "\<And>j. j < length p \<Longrightarrow> 0 \<le> gibbs_q \<gamma> p j" using assms(9) by (simp add: gibbs_q_nonneg)
    show "\<And>j. j < length p \<Longrightarrow> 0 < gibbs_q \<beta> p j \<Longrightarrow> 0 < gibbs_q \<gamma> p j" using pos by simp
    show "(\<Sum>j<length p. gibbs_q \<gamma> p j) \<le> (\<Sum>j<length p. gibbs_q \<beta> p j)" using sums by simp
    show "i < length p" by fact
    show "0 < gibbs_q \<beta> p i" using i(2) assms(8) by (simp add: gibbs_q_pos_iff)
    show "gibbs_q \<beta> p i \<noteq> gibbs_q \<gamma> p i" by fact
  qed
  then show "0 < (\<beta> - \<gamma>) * mean_log \<beta> p - ln (pow_sum \<beta> p) + ln (pow_sum \<gamma> p)"
    using assms(1,8,9) by (simp add: cross_form)
  have "0 \<le> (\<Sum>i<length p. gibbs_q \<gamma> p i * (ln (gibbs_q \<gamma> p i) - ln (gibbs_q \<beta> p i)))"
  proof (rule gibbs)
    show "\<And>j. j < length p \<Longrightarrow> 0 \<le> gibbs_q \<gamma> p j" using assms(9) by (simp add: gibbs_q_nonneg)
    show "\<And>j. j < length p \<Longrightarrow> 0 \<le> gibbs_q \<beta> p j" using assms(8) by (simp add: gibbs_q_nonneg)
    show "\<And>j. j < length p \<Longrightarrow> 0 < gibbs_q \<gamma> p j \<Longrightarrow> 0 < gibbs_q \<beta> p j" using pos by simp
    show "(\<Sum>j<length p. gibbs_q \<beta> p j) \<le> (\<Sum>j<length p. gibbs_q \<gamma> p j)" using sums by simp
  qed
  then show "0 \<le> (\<gamma> - \<beta>) * mean_log \<gamma> p - ln (pow_sum \<gamma> p) + ln (pow_sum \<beta> p)"
    using assms(1,8,9) by (simp add: cross_form)
qed

lemma entropy_arith:
  fixes b g mb mg zb zg :: real
  assumes "0 < (b - g) * mb - zb + zg" and "0 \<le> (g - b) * mg - zg + zb"
    and "0 < g" and "g < b"
  shows "g * mg - zg < b * mb - zb"
proof -
  have "0 < (b - g) * mb - zb + zg + ((g - b) * mg - zg + zb)"
    using assms(1,2) by linarith
  also have "\<dots> = (b - g) * (mb - mg)" by (simp add: algebra_simps)
  finally have "0 < (b - g) * (mb - mg)" .
  then have "0 < mb - mg" using assms(4) by (simp add: zero_less_mult_iff)
  then have "0 < g * (mb - mg)" using assms(3) by simp
  then have "g * mg < g * mb" by (simp add: algebra_simps)
  moreover have "b * mb - g * mb - zb + zg > 0" using assms(1) by (simp add: algebra_simps)
  ultimately show ?thesis by linarith
qed

lemma entropy_order:
  assumes "list_all (\<lambda>v. 0 \<le> v) p" and "j < length p" and "k < length p"
    and "0 < p ! j" and "0 < p ! k" and "p ! j \<noteq> p ! k" and "0 < \<gamma>" and "\<gamma> < \<beta>"
    and "0 < pow_sum \<beta> p" and "0 < pow_sum \<gamma> p"
  shows "(\<Sum>i<length p. gibbs_q \<gamma> p i * ln (gibbs_q \<gamma> p i))
           < (\<Sum>i<length p. gibbs_q \<beta> p i * ln (gibbs_q \<beta> p i))"
proof -
  have "\<gamma> * mean_log \<gamma> p - ln (pow_sum \<gamma> p) < \<beta> * mean_log \<beta> p - ln (pow_sum \<beta> p)"
    using mean_log_order [of p j k \<gamma> \<beta>] assms by (intro entropy_arith) simp_all
  then show ?thesis using assms by (simp add: entropy_form)
qed

lemma soft_row_gibbs:
  assumes "1 / 10 ^ 9 \<le> pow_sum \<beta> p"
  shows "entropy (soft_row \<beta> p) = - (\<Sum>i<length p. gibbs_q \<beta> p i * ln (gibbs_q \<beta> p i))"
proof -
  have m: "max (sum_list (map (\<lambda>v. v powr \<beta>) p)) (1 / 10 ^ 9) = pow_sum \<beta> p"
    using assms by (simp add: pow_sum_def sum_list_map_nth max_def)
  have "soft_row \<beta> p ! i = gibbs_q \<beta> p i" if "i < length p" for i
    using that unfolding soft_row_def m by (simp add: gibbs_q_def)
  moreover have "length (soft_row \<beta> p) = length p" by (simp add: soft_row_def)
  ultimately show ?thesis by (simp add: entropy_def sum_list_map_nth)
qed

lemma pow_sum_antimono:
  assumes "list_all (\<lambda>v. 0 \<le> v \<and> v \<le> 1) p" and "\<gamma> \<le> \<beta>"
  shows "pow_sum \<beta> p \<le> pow_sum \<gamma> p"
  unfolding pow_sum_def using assms
  by (intro sum_mono powr_mono') (simp_all add: list_all_length)

text \<open>
  Claim C6, amended. For a teacher row with entries in \<open>[0,1]\<close> that has two positive
  entries of different value, and temperatures \<open>0 < T1 < T2\<close> at which the floor is
  inactive (the powers at \<open>T1\<close> sum to at least \<open>10\<^sup>-\<^sup>9\<close>), the sharpened row at \<open>T2\<close> has
  strictly more entropy than the sharpened row at \<open>T1\<close>.
\<close>

theorem entropy_increases:
  assumes "list_all (\<lambda>v. 0 \<le> v \<and> v \<le> 1) p"
    and "j < length p" and "k < length p" and "0 < p ! j" and "0 < p ! k" and "p ! j \<noteq> p ! k"
    and "0 < T1" and "T1 < T2"
    and "1 / 10 ^ 9 \<le> sum_list (map (\<lambda>v. v powr (1 / T1)) p)"
  shows "\<exists>s1 s2. teacher_soft_row (1 / T1) p = Some s1 \<and> teacher_soft_row (1 / T2) p = Some s2 \<and>
                  entropy s1 < entropy s2"
proof -
  have nn: "list_all (\<lambda>v. 0 \<le> v) p" using assms(1) by (simp add: list_all_iff)
  have T2: "0 < T2" using assms(7,8) by simp
  have order: "1 / T2 < 1 / T1" using assms(7,8) by (simp add: frac_less2)
  have Z1: "1 / 10 ^ 9 \<le> pow_sum (1 / T1) p"
    using assms(9) by (simp add: pow_sum_def sum_list_map_nth)
  have Z2: "1 / 10 ^ 9 \<le> pow_sum (1 / T2) p"
    using Z1 pow_sum_antimono [OF assms(1), of "1 / T2" "1 / T1"] order by simp
  have p1: "0 < pow_sum (1 / T1) p" using Z1 by (rule less_le_trans [rotated]) simp
  have p2: "0 < pow_sum (1 / T2) p" using Z2 by (rule less_le_trans [rotated]) simp
  have s1: "teacher_soft_row (1 / T1) p = Some (soft_row (1 / T1) p)"
    using nn assms(7) by (intro teacher_soft_row_nonneg) simp_all
  have s2: "teacher_soft_row (1 / T2) p = Some (soft_row (1 / T2) p)"
    using nn T2 by (intro teacher_soft_row_nonneg) simp_all
  have "(\<Sum>i<length p. gibbs_q (1 / T2) p i * ln (gibbs_q (1 / T2) p i))
          < (\<Sum>i<length p. gibbs_q (1 / T1) p i * ln (gibbs_q (1 / T1) p i))"
    using nn assms(2-6) T2 order p1 p2 by (intro entropy_order [where j = j and k = k]) simp_all
  then have "entropy (soft_row (1 / T1) p) < entropy (soft_row (1 / T2) p)"
    using Z1 Z2 by (simp add: soft_row_gibbs)
  then show ?thesis using s1 s2 by simp
qed

lemma unit_scenario_probs: "list_all (\<lambda>v. 0 \<le> v \<and> v \<le> 1) scenario_probs"
  by (simp add: scenario_probs_def)

text \<open>The teacher vector of the scenario at temperatures 1 and 2.\<close>

theorem entropy_increases_witness:
  "list_all (\<lambda>v. 0 \<le> v \<and> v \<le> 1) scenario_probs \<and> scenario_probs ! 0 \<noteq> scenario_probs ! 14 \<and>
   1 / 10 ^ 9 \<le> sum_list (map (\<lambda>v. v powr (1 / 1)) scenario_probs) \<and>
   (\<exists>s1 s2. teacher_soft_row (1 / 1) scenario_probs = Some s1 \<and>
            teacher_soft_row (1 / 2) scenario_probs = Some s2 \<and> entropy s1 < entropy s2)"
proof -
  have a: "(0::nat) < length scenario_probs" and b: "(14::nat) < length scenario_probs"
    and c: "0 < scenario_probs ! 0" and d: "0 < scenario_probs ! 14"
    and e: "scenario_probs ! 0 \<noteq> scenario_probs ! 14"
    by (simp_all add: scenario_probs_def)
  have f: "1 / 10 ^ 9 \<le> sum_list (map (\<lambda>v. v powr (1 / 1)) scenario_probs)"
    by (simp add: scenario_probs_def)
  have t: "(0::real) < 1" "(1::real) < 2" by simp_all
  show ?thesis
    using entropy_increases [OF unit_scenario_probs a b c d e t f] unit_scenario_probs e f
    by blast
qed

text \<open>
  Claim C6 as stated fails on a row that is not uniform but has a single positive entry:
  the one-hot row is sharpened to itself at every temperature, with entropy 0 at
  temperatures 1 and 2.
\<close>

theorem entropy_constant_counterexample:
  "map_option entropy (teacher_soft_row (1 / 1) one_hot) = Some 0 \<and>
   map_option entropy (teacher_soft_row (1 / 2) one_hot) = Some 0"
  by (simp add: teacher_soft_row_def torch_pow_def one_hot_def entropy_def)

end
